theory Spec2Isabelle
  imports Main
begin

section \<open>Python built-ins used by the schedule generator\<close>

text \<open>
  The generator (\<^verbatim>\<open>backend/app/schedule_generator.py\<close>) is Python. Its integers are
  unbounded (\<open>int\<close>), its strings are \<open>string\<close>, and the two exceptions it can raise on
  inputs of the declared types are values of \<open>py_error\<close>: the division by
  \<^verbatim>\<open>academic_weeks\<close> and the parse of \<^verbatim>\<open>start_time\<close>.
\<close>

datatype py_error = ZeroDivisionError | ValueError

text \<open>Truthiness of an optional string: \<^verbatim>\<open>None\<close> and \<^verbatim>\<open>''\<close> are false.\<close>

fun truthy :: "string option \<Rightarrow> bool" where
  "truthy None = False"
| "truthy (Some s) = (s \<noteq> [])"

text \<open>
  \<^verbatim>\<open>s.split(sep)\<close> for a non-empty separator: the text is cut at every occurrence of
  the separator, found from left to right without overlap. The second argument collects
  the current piece in reverse.
\<close>

function py_split_from :: "string \<Rightarrow> string \<Rightarrow> string \<Rightarrow> string list" where
  "py_split_from sep acc [] = [rev acc]"
| "py_split_from sep acc (c # cs) =
     (if sep \<noteq> [] \<and> take (length sep) (c # cs) = sep
      then rev acc # py_split_from sep [] (drop (length sep) (c # cs))
      else py_split_from sep (c # acc) cs)"
  by pat_completeness auto
termination
  by (relation "measure (\<lambda>(sep, acc, s). length s)") auto

definition py_split :: "string \<Rightarrow> string \<Rightarrow> string list" where
  "py_split sep s = py_split_from sep [] s"

text \<open>
  A character is its code point, for the code points below 256. Among these, Python's
  \<^verbatim>\<open>str.isspace\<close> holds for the codes 9 to 13, 28 to 31, 32, 133 and 160, and these
  are the characters \<^verbatim>\<open>s.strip()\<close> removes at both ends.
\<close>

definition is_space :: "char \<Rightarrow> bool" where
  "is_space c =
     (let k = (of_char c :: nat)
      in (9 \<le> k \<and> k \<le> 13) \<or> (28 \<le> k \<and> k \<le> 32) \<or> k = 133 \<or> k = 160)"

definition py_strip :: "string \<Rightarrow> string" where
  "py_strip s = rev (dropWhile is_space (rev (dropWhile is_space s)))"

text \<open>
  \<^verbatim>\<open>int(s)\<close> in base ten. CPython keeps the characters below 127 as they are and
  turns the white space above (133 and 160) into blanks; it then skips the C white space
  (9 to 13 and 32) at both ends, so the codes 28 to 31 are not skipped. One sign may
  lead, and the digits may be grouped by single underscores. Anything else raises
  \<^verbatim>\<open>ValueError\<close>, here \<open>None\<close>.
\<close>

definition is_int_space :: "char \<Rightarrow> bool" where
  "is_int_space c =
     (let k = (of_char c :: nat) in (9 \<le> k \<and> k \<le> 13) \<or> k = 32 \<or> k = 133 \<or> k = 160)"

definition is_digit :: "char \<Rightarrow> bool" where
  "is_digit c = (let k = (of_char c :: nat) in 48 \<le> k \<and> k \<le> 57)"

definition digit_val :: "char \<Rightarrow> nat" where
  "digit_val c = (of_char c :: nat) - 48"

fun py_digits :: "nat \<Rightarrow> string \<Rightarrow> nat option" where
  "py_digits acc [] = Some acc"
| "py_digits acc [c] = (if is_digit c then Some (10 * acc + digit_val c) else None)"
| "py_digits acc (c # d # cs) =
     (if is_digit c then py_digits (10 * acc + digit_val c) (d # cs)
      else if c = CHR ''_'' \<and> is_digit d then py_digits acc (d # cs)
      else None)"

definition py_unsigned :: "string \<Rightarrow> nat option" where
  "py_unsigned s =
     (case s of
        [] \<Rightarrow> None
      | c # cs \<Rightarrow> if is_digit c then py_digits (digit_val c) cs else None)"

definition py_int :: "string \<Rightarrow> int option" where
  "py_int s =
     (case rev (dropWhile is_int_space (rev (dropWhile is_int_space s))) of
        [] \<Rightarrow> None
      | c # cs \<Rightarrow>
          if c = CHR ''-'' then map_option (\<lambda>n. - int n) (py_unsigned cs)
          else if c = CHR ''+'' then map_option int (py_unsigned cs)
          else map_option int (py_unsigned (c # cs)))"

text \<open>\<^verbatim>\<open>str(n)\<close> for a natural number, and the format \<^verbatim>\<open>{n:02d}\<close> of an integer.\<close>

definition digit_char :: "nat \<Rightarrow> char" where
  "digit_char n = char_of (48 + n)"

fun str_nat :: "nat \<Rightarrow> string" where
  "str_nat n = (if n < 10 then [digit_char n] else str_nat (n div 10) @ [digit_char (n mod 10)])"

definition str_int :: "int \<Rightarrow> string" where
  "str_int i = (if i < 0 then CHR ''-'' # str_nat (nat (- i)) else str_nat (nat i))"

definition format_02d :: "int \<Rightarrow> string" where
  "format_02d i =
     (if i < 0 then CHR ''-'' # str_nat (nat (- i))
      else replicate (2 - length (str_nat (nat i))) CHR ''0'' @ str_nat (nat i))"

text \<open>\<^verbatim>\<open>sep.join(parts)\<close>.\<close>

fun py_join :: "string \<Rightarrow> string list \<Rightarrow> string" where
  "py_join sep [] = []"
| "py_join sep [p] = p"
| "py_join sep (p # q # ps) = p @ sep @ py_join sep (q # ps)"

section \<open>The data model\<close>

text \<open>
  The entities of \<^verbatim>\<open>models.py\<close> with the columns the generator reads. A JSON dictionary
  column is an association list in insertion order; its keys are distinct.
\<close>

record institution =
  working_days :: "string list"
  lessons_per_day :: int
  lesson_duration :: int
  break_durations :: "int list"
  start_time :: string
  academic_weeks :: int

record class_group =
  cg_id :: string
  cg_name :: string
  students_count :: int
  subject_hours :: "(string \<times> int) list"

record subject =
  subj_id :: string
  subj_name :: string
  subj_type :: string
  teacher_ids :: "string list"

record teacher =
  tch_id :: string
  first_name :: string
  last_name :: string
  available_hours :: "(string \<times> int list) list"
  home_classroom :: "string option"

record classroom =
  room_id :: string
  number :: string
  room_type :: string
  specialization :: "string option"

text \<open>Class \<^verbatim>\<open>LessonRequirement\<close>.\<close>

record lesson_requirement =
  req_id :: string
  group_id :: string
  group_name :: string
  subject_id :: string
  subject_name :: string
  subject_type :: string
  available_teacher_ids :: "string list"
  priority :: int

text \<open>
  A schedule slot as \<^verbatim>\<open>_find_available_slots\<close> builds it. Its \<^verbatim>\<open>id\<close> and
  \<^verbatim>\<open>created_at\<close> are read from the clock and are not part of the model; nothing in
  the generator reads them.
\<close>

record schedule_slot =
  day :: string
  lesson_number :: int
  class_group_id :: string
  slot_subject_id :: string
  teacher_id :: string
  classroom_id :: string
  slot_start_time :: string
  slot_end_time :: string

section \<open>The generator and its log\<close>

text \<open>
  Every call of \<^verbatim>\<open>self.log\<close> in the source has a constructor here; the arguments are
  the values its message is built from. The text of a message is not modelled. The
  constructors are grouped by the method that writes the message.
\<close>

datatype progress_msg =
    LogStarting
  | LogValidationPassed
  | LogGenerated nat
  | LogPrioritized
  | LogNoAvailableSlots string string
  | LogScheduled string string string int "string option" "(string \<times> string) option"
      "(string \<times> string) option"
  | LogComplete nat nat
  | LogGenerationError py_error

datatype classroom_info_msg =
    LogSpecializedLabsDetected
  | LogSpecializedRoom string string
  | LogTeacherLabsDetected
  | LogRoomOwnedBy string string string
  | LogRoomNoOwner string

datatype failure_msg =
    LogFailed string string
  | LogNoTeachersAssigned string
  | LogTeacherNotFound string
  | LogNoTeachersExist
  | LogTeacherNoHours string string
  | LogNoTeacherAvailability
  | LogSpecializedLabsUnavailable nat
  | LogLabOccupied string nat
  | LogNoLabs
  | LogGeneralLabsUnavailable nat
  | LogNoTheoryRooms
  | LogTheoryRoomsUnavailable nat

datatype conflict_msg =
    LogAnalyzing nat nat
  | LogPotentialSlot string int nat nat
  | LogConflictResults
  | LogTotalChecked nat
  | LogGroupConflicts nat
  | LogTeacherConflicts nat
  | LogTeacherUnavailable nat
  | LogClassroomConflicts nat
  | LogRecIncreaseAvailability
  | LogRecAddClassrooms string
  | LogRecGroupDense
  | LogRecComplex

datatype distribution_msg =
    LogOptimizing
  | LogUneven string nat nat
  | LogSpecializedLabUsage string nat
  | LogUnauthorized string
  | LogAuthorizedOnly string
  | LogTeacherLabUsage string string string nat
  | LogOwnerLessons nat
  | LogOtherTeachers nat
  | LogOnlyOwner
  | LogUnassignedLabUsage string nat
  | LogOptimizationComplete

datatype log_msg =
    Progress progress_msg
  | ClassroomInfo classroom_info_msg
  | Failure failure_msg
  | Conflict conflict_msg
  | Distribution distribution_msg

text \<open>Class \<^verbatim>\<open>ScheduleGenerator\<close>: the object \<^verbatim>\<open>self\<close>.\<close>

record schedule_generator =
  institution :: institution
  class_groups :: "class_group list"
  subjects :: "subject list"
  teachers :: "teacher list"
  classrooms :: "classroom list"
  schedule :: "schedule_slot list"
  logs :: "log_msg list"

definition log :: "schedule_generator \<Rightarrow> log_msg \<Rightarrow> schedule_generator" where
  "log self message = self\<lparr>logs := logs self @ [message]\<rparr>"

definition log_all :: "schedule_generator \<Rightarrow> log_msg list \<Rightarrow> schedule_generator" where
  "log_all self messages = foldl log self messages"

section \<open>Validation\<close>

datatype validation = Valid | Invalid string

definition validate_input_data :: "schedule_generator \<Rightarrow> validation" where
  "validate_input_data self =
     (if length (class_groups self) = 0 then Invalid ''No class groups configured''
      else if length (subjects self) = 0 then Invalid ''No subjects configured''
      else if length (teachers self) = 0 then Invalid ''No teachers configured''
      else if length (classrooms self) = 0 then Invalid ''No classrooms configured''
      else if length (filter (\<lambda>g. subject_hours g \<noteq> []) (class_groups self)) = 0
        then Invalid ''No subjects assigned to any groups''
      else if length (filter (\<lambda>s. teacher_ids s \<noteq> []) (subjects self)) = 0
        then Invalid ''No teachers assigned to any subjects''
      else Valid)"

section \<open>Classrooms\<close>

text \<open>
  A specialization is a string of subject ids separated by a comma and a blank; the
  classroom is specialized for a subject when its type is \<^verbatim>\<open>lab\<close>, the string is
  not empty and the subject's id is one of its parts.
\<close>

definition specialized_for :: "string \<Rightarrow> classroom \<Rightarrow> bool" where
  "specialized_for sid c =
     (room_type c = ''lab'' \<and> truthy (specialization c) \<and>
      (case specialization c of None \<Rightarrow> False | Some s \<Rightarrow> sid \<in> set (py_split '', '' s)))"

definition get_specialized_classrooms_for_subject ::
  "schedule_generator \<Rightarrow> string \<Rightarrow> classroom list" where
  "get_specialized_classrooms_for_subject self sid = filter (specialized_for sid) (classrooms self)"

text \<open>
  The general laboratories of \<^verbatim>\<open>_get_suitable_classrooms_for_teacher\<close>: type
  \<^verbatim>\<open>lab\<close> and a specialization that is \<^verbatim>\<open>None\<close>, empty or white space only.
\<close>

definition blank_specialization :: "classroom \<Rightarrow> bool" where
  "blank_specialization c =
     (\<not> truthy (specialization c) \<or>
      (case specialization c of None \<Rightarrow> False | Some s \<Rightarrow> py_strip s = []))"

definition find_teacher :: "schedule_generator \<Rightarrow> string \<Rightarrow> teacher option" where
  "find_teacher self tid = find (\<lambda>t. tch_id t = tid) (teachers self)"

definition find_classroom :: "schedule_generator \<Rightarrow> string \<Rightarrow> classroom option" where
  "find_classroom self cid = find (\<lambda>c. room_id c = cid) (classrooms self)"

definition find_owner :: "schedule_generator \<Rightarrow> string \<Rightarrow> teacher option" where
  "find_owner self cid = find (\<lambda>t. home_classroom t = Some cid) (teachers self)"

definition own_teacher_lab :: "schedule_generator \<Rightarrow> string \<Rightarrow> classroom list" where
  "own_teacher_lab self tid =
     (case find_teacher self tid of
        None \<Rightarrow> []
      | Some t \<Rightarrow>
          if truthy (home_classroom t) then
            (case find (\<lambda>c. Some (room_id c) = home_classroom t) (classrooms self) of
               None \<Rightarrow> []
             | Some teacher_lab \<Rightarrow> if room_type teacher_lab = ''teacher_lab'' then [teacher_lab] else [])
          else [])"

definition get_suitable_classrooms_for_teacher ::
  "schedule_generator \<Rightarrow> string \<Rightarrow> string \<Rightarrow> string \<Rightarrow> classroom list" where
  "get_suitable_classrooms_for_teacher self stype sid tid =
     (if stype = ''lab'' then
        (let specialized_classrooms = get_specialized_classrooms_for_subject self sid in
         if specialized_classrooms \<noteq> [] then specialized_classrooms
         else filter (\<lambda>c. room_type c = ''lab'' \<and> blank_specialization c) (classrooms self))
      else
        own_teacher_lab self tid
        @ filter (\<lambda>c. room_type c = ''theory'') (classrooms self)
        @ filter (\<lambda>c. room_type c = ''teacher_lab'' \<and>
                      \<not> list_ex (\<lambda>t. home_classroom t = Some (room_id c)) (teachers self))
            (classrooms self))"

definition get_suitable_classrooms_for_subject_type ::
  "schedule_generator \<Rightarrow> string \<Rightarrow> string \<Rightarrow> classroom list" where
  "get_suitable_classrooms_for_subject_type self stype sid =
     (if stype = ''lab'' then
        (let specialized = get_specialized_classrooms_for_subject self sid in
         if specialized \<noteq> [] then specialized
         else filter (\<lambda>c. room_type c = ''lab'' \<and> \<not> truthy (specialization c)) (classrooms self))
      else filter (\<lambda>c. room_type c = ''theory'' \<or> room_type c = ''teacher_lab'') (classrooms self))"

section \<open>Lesson times\<close>

definition format_time :: "int \<Rightarrow> string" where
  "format_time minutes = format_02d (minutes div 60) @ '':'' @ format_02d (minutes mod 60)"

text \<open>
  \<^verbatim>\<open>start_hour, start_minute = map(int, start_time.split(':'))\<close>: exactly two parts,
  both integers, or \<^verbatim>\<open>ValueError\<close>.
\<close>

definition parse_start_time :: "string \<Rightarrow> py_error + (int \<times> int)" where
  "parse_start_time s =
     (case py_split '':'' s of
        [a, b] \<Rightarrow>
          (case py_int a of
             None \<Rightarrow> Inl ValueError
           | Some h \<Rightarrow> (case py_int b of None \<Rightarrow> Inl ValueError | Some m \<Rightarrow> Inr (h, m)))
      | _ \<Rightarrow> Inl ValueError)"

text \<open>One turn of the loop over \<^verbatim>\<open>range(1, lesson_number)\<close>.\<close>

definition add_lesson_and_break :: "institution \<Rightarrow> int \<Rightarrow> int \<Rightarrow> int" where
  "add_lesson_and_break inst current_minutes i =
     (let current = current_minutes + lesson_duration inst in
      if i < lessons_per_day inst \<and> i - 1 < int (length (break_durations inst))
      then current + break_durations inst ! nat (i - 1)
      else current)"

definition calculate_lesson_time :: "institution \<Rightarrow> int \<Rightarrow> py_error + (string \<times> string)" where
  "calculate_lesson_time inst n =
     (case parse_start_time (start_time inst) of
        Inl e \<Rightarrow> Inl e
      | Inr (start_hour, start_minute) \<Rightarrow>
          (let current_minutes =
                 foldl (add_lesson_and_break inst) (start_hour * 60 + start_minute) [1..n - 1]
           in Inr (format_time current_minutes,
                   format_time (current_minutes + lesson_duration inst))))"

section \<open>Requirement derivation\<close>

text \<open>
  A loop whose body appends to a list or raises: the results are concatenated in order
  and the first exception ends the loop.
\<close>

fun collect :: "('a \<Rightarrow> py_error + 'b list) \<Rightarrow> 'a list \<Rightarrow> py_error + 'b list" where
  "collect f [] = Inr []"
| "collect f (x # xs) =
     (case f x of
        Inl e \<Rightarrow> Inl e
      | Inr ys \<Rightarrow> (case collect f xs of Inl e \<Rightarrow> Inl e | Inr zs \<Rightarrow> Inr (ys @ zs)))"

definition find_subject :: "schedule_generator \<Rightarrow> string \<Rightarrow> subject option" where
  "find_subject self sid = find (\<lambda>s. subj_id s = sid) (subjects self)"

definition calculate_priority :: "schedule_generator \<Rightarrow> subject \<Rightarrow> class_group \<Rightarrow> int" where
  "calculate_priority self subject grp =
     (let p0 = (if subj_type subject = ''lab'' then - 10 else 0);
          has_specialized_classroom = list_ex (specialized_for (subj_id subject)) (classrooms self);
          p1 = (if has_specialized_classroom then p0 - 20 else p0);
          p2 = p1 + int (length (teacher_ids subject))
      in p2 - students_count grp div 10)"

text \<open>\<^verbatim>\<open>max(1, yearly_hours // self.institution.academic_weeks)\<close>; Python's \<^verbatim>\<open>//\<close> is
  floor division, as \<open>div\<close> on \<open>int\<close> is, and raises on a zero divisor.\<close>

definition weekly_hours :: "institution \<Rightarrow> int \<Rightarrow> py_error + int" where
  "weekly_hours inst yearly_hours =
     (if academic_weeks inst = 0 then Inl ZeroDivisionError
      else Inr (max 1 (yearly_hours div academic_weeks inst)))"

definition make_requirement ::
  "schedule_generator \<Rightarrow> class_group \<Rightarrow> string \<Rightarrow> subject \<Rightarrow> int \<Rightarrow> lesson_requirement" where
  "make_requirement self grp sid subject i =
     \<lparr>req_id = cg_id grp @ ''-'' @ sid @ ''-'' @ str_int i,
      group_id = cg_id grp,
      group_name = cg_name grp,
      subject_id = subj_id subject,
      subject_name = subj_name subject,
      subject_type = subj_type subject,
      available_teacher_ids = teacher_ids subject,
      priority = calculate_priority self subject grp\<rparr>"

text \<open>The body of the loop over \<^verbatim>\<open>group.subject_hours.items()\<close>.\<close>

definition requirements_for_entry ::
  "schedule_generator \<Rightarrow> class_group \<Rightarrow> string \<times> int \<Rightarrow> py_error + lesson_requirement list" where
  "requirements_for_entry self grp entry =
     (case entry of (sid, yearly_hours) \<Rightarrow>
        if yearly_hours > 0 then
          (case find_subject self sid of
             None \<Rightarrow> Inr []
           | Some subject \<Rightarrow>
               if teacher_ids subject \<noteq> [] then
                 (case weekly_hours (institution self) yearly_hours of
                    Inl e \<Rightarrow> Inl e
                  | Inr w \<Rightarrow> Inr (map (make_requirement self grp sid subject) [0..w - 1]))
               else Inr [])
        else Inr [])"

definition requirements_for_group ::
  "schedule_generator \<Rightarrow> class_group \<Rightarrow> py_error + lesson_requirement list" where
  "requirements_for_group self grp =
     (if subject_hours grp = [] then Inr []
      else collect (requirements_for_entry self grp) (subject_hours grp))"

definition generate_lesson_requirements ::
  "schedule_generator \<Rightarrow> py_error + lesson_requirement list" where
  "generate_lesson_requirements self = collect (requirements_for_group self) (class_groups self)"

text \<open>\<^verbatim>\<open>sorted(requirements, key=lambda x: x.priority)\<close>: a stable sort, as \<open>sort_key\<close> is.\<close>

definition prioritize_requirements :: "lesson_requirement list \<Rightarrow> lesson_requirement list" where
  "prioritize_requirements requirements = sort_key priority requirements"

section \<open>Finding the available slots\<close>

definition is_slot_available ::
  "schedule_generator \<Rightarrow> string \<Rightarrow> string \<Rightarrow> string \<Rightarrow> string \<Rightarrow> int \<Rightarrow> bool" where
  "is_slot_available self gid tid cid d n =
     (let has_conflict =
            list_ex (\<lambda>slot. (class_group_id slot = gid \<or> teacher_id slot = tid \<or> classroom_id slot = cid)
                            \<and> day slot = d \<and> lesson_number slot = n) (schedule self)
      in if has_conflict then False
         else (case find_classroom self cid of
                 None \<Rightarrow> True
               | Some classroom \<Rightarrow>
                   if room_type classroom = ''teacher_lab'' then
                     (case find_owner self (room_id classroom) of
                        None \<Rightarrow> True
                      | Some owner \<Rightarrow> if tch_id owner \<noteq> tid then False else True)
                   else True))"

definition teacher_available_at :: "teacher \<Rightarrow> string \<Rightarrow> int \<Rightarrow> bool" where
  "teacher_available_at t d n =
     (case map_of (available_hours t) d of None \<Rightarrow> False | Some hours \<Rightarrow> n \<in> set hours)"

text \<open>
  The four nested loops of \<^verbatim>\<open>_find_available_slots\<close>, with their \<^verbatim>\<open>continue\<close>s as
  filters: the combinations for which a slot is built, in the order of the loops.
\<close>

definition candidate_combinations ::
  "schedule_generator \<Rightarrow> lesson_requirement \<Rightarrow> (string \<times> int \<times> string \<times> classroom) list" where
  "candidate_combinations self req =
     [(d, n, tid, c).
        d \<leftarrow> working_days (institution self),
        n \<leftarrow> [1..lessons_per_day (institution self)],
        tid \<leftarrow> available_teacher_ids req,
        t \<leftarrow> (case find_teacher self tid of None \<Rightarrow> [] | Some t \<Rightarrow> [t]),
        teacher_available_at t d n,
        c \<leftarrow> get_suitable_classrooms_for_teacher self (subject_type req) (subject_id req) tid,
        is_slot_available self (group_id req) tid (room_id c) d n]"

definition make_slot ::
  "institution \<Rightarrow> lesson_requirement \<Rightarrow> string \<times> int \<times> string \<times> classroom
   \<Rightarrow> py_error + schedule_slot list" where
  "make_slot inst req comb =
     (case comb of (d, n, tid, c) \<Rightarrow>
        (case calculate_lesson_time inst n of
           Inl e \<Rightarrow> Inl e
         | Inr (start, end_time) \<Rightarrow>
             Inr [\<lparr>day = d, lesson_number = n, class_group_id = group_id req,
                   slot_subject_id = subject_id req, teacher_id = tid, classroom_id = room_id c,
                   slot_start_time = start, slot_end_time = end_time\<rparr>]))"

definition find_available_slots ::
  "schedule_generator \<Rightarrow> lesson_requirement \<Rightarrow> py_error + schedule_slot list" where
  "find_available_slots self req =
     collect (make_slot (institution self) req) (candidate_combinations self req)"

section \<open>Scoring and selection\<close>

text \<open>\<^verbatim>\<open>xs.index(x)\<close> where \<open>x\<close> is in \<open>xs\<close>.\<close>

fun index_of :: "'a list \<Rightarrow> 'a \<Rightarrow> nat" where
  "index_of [] x = 0"
| "index_of (y # ys) x = (if y = x then 0 else Suc (index_of ys x))"

definition score_slot :: "schedule_generator \<Rightarrow> schedule_slot \<Rightarrow> lesson_requirement \<Rightarrow> int" where
  "score_slot self slot req =
     (let inst = institution self;
          day_index = (if day slot \<in> set (working_days inst)
                       then index_of (working_days inst) (day slot) else 0);
          s1 = (int (length (working_days inst)) - int day_index) * 2;
          middle_lesson = (lessons_per_day inst + 1) div 2;
          lesson_distance = \<bar>lesson_number slot - middle_lesson\<bar>;
          s2 = s1 + (lessons_per_day inst - lesson_distance) * 3;
          group_lessons_on_day =
            length (filter (\<lambda>s. class_group_id s = class_group_id slot \<and> day s = day slot)
                      (schedule self));
          s3 = s2 - int group_lessons_on_day * 5;
          s4 = (case find_teacher self (teacher_id slot) of
                  None \<Rightarrow> s3
                | Some t \<Rightarrow> if home_classroom t = Some (classroom_id slot) then s3 + 100 else s3);
          s5 = (case find_classroom self (classroom_id slot) of
                  None \<Rightarrow> s4
                | Some c \<Rightarrow> if specialized_for (subject_id req) c then s4 + 50 else s4);
          has_consecutive =
            list_ex (\<lambda>s. class_group_id s = class_group_id slot \<and>
                          slot_subject_id s = slot_subject_id slot \<and>
                          day s = day slot \<and>
                          \<bar>lesson_number s - lesson_number slot\<bar> = 1) (schedule self)
      in if subject_type req = ''lab'' \<and> has_consecutive then s5 + 15 else s5)"

text \<open>
  \<^verbatim>\<open>scored_slots.sort(key=lambda x: x[1], reverse=True)\<close> is stable: slots of equal score
  keep their order. That is the stable ascending sort by the negated score.
\<close>

definition select_best_slot ::
  "schedule_generator \<Rightarrow> schedule_slot list \<Rightarrow> lesson_requirement \<Rightarrow> schedule_slot option" where
  "select_best_slot self available_slots req =
     (if available_slots = [] then None
      else (let scored_slots = map (\<lambda>slot. (slot, score_slot self slot req)) available_slots
            in Some (fst (hd (sort_key (\<lambda>x. - snd x) scored_slots)))))"

section \<open>Scheduling one lesson\<close>

definition scheduled_message ::
  "schedule_generator \<Rightarrow> lesson_requirement \<Rightarrow> schedule_slot \<Rightarrow> log_msg" where
  "scheduled_message self req best_slot =
     (let classroom = find_classroom self (classroom_id best_slot);
          teacher = find_teacher self (teacher_id best_slot);
          owner = (case classroom of
                     None \<Rightarrow> None
                   | Some c \<Rightarrow> if room_type c = ''teacher_lab'' then find_owner self (room_id c) else None)
      in Progress (LogScheduled (subject_name req) (group_name req) (day best_slot)
           (lesson_number best_slot) (map_option number classroom)
           (map_option (\<lambda>t. (first_name t, last_name t)) owner)
           (map_option (\<lambda>t. (first_name t, last_name t)) teacher)))"

text \<open>
  \<^verbatim>\<open>_schedule_lesson\<close> returns the new \<^verbatim>\<open>self\<close> and its boolean. An exception can only
  come from \<^verbatim>\<open>_find_available_slots\<close>, before anything is written.
\<close>

definition schedule_lesson ::
  "schedule_generator \<Rightarrow> lesson_requirement \<Rightarrow> py_error + (schedule_generator \<times> bool)" where
  "schedule_lesson self req =
     (case find_available_slots self req of
        Inl e \<Rightarrow> Inl e
      | Inr available_slots \<Rightarrow>
          if available_slots = [] then
            Inr (log self (Progress (LogNoAvailableSlots (subject_name req) (group_name req))), False)
          else
            (case select_best_slot self available_slots req of
               None \<Rightarrow> Inr (self, False)
             | Some best_slot \<Rightarrow>
                 (let self1 = self\<lparr>schedule := schedule self @ [best_slot]\<rparr>
                  in Inr (log self1 (scheduled_message self1 req best_slot), True))))"

section \<open>Failure diagnostics\<close>

text \<open>
  The methods of this section and the two after it only read \<^verbatim>\<open>self\<close> and write to the
  log, so each one is modelled by the list of messages it writes, in order.
\<close>

record conflict_summary =
  teacher_conflicts :: nat
  classroom_conflicts :: nat
  group_conflicts :: nat
  teacher_unavailable :: nat
  total_slots_checked :: nat

definition busy_at :: "schedule_generator \<Rightarrow> (schedule_slot \<Rightarrow> bool) \<Rightarrow> string \<Rightarrow> int \<Rightarrow> bool" where
  "busy_at self who d n = list_ex (\<lambda>s. who s \<and> day s = d \<and> lesson_number s = n) (schedule self)"

text \<open>
  The body of the two loops over days and lessons of \<^verbatim>\<open>_analyze_time_slot_conflicts\<close>:
  the new counters, and the message of the early return when a pair is found.
\<close>

definition scan_time_slot ::
  "schedule_generator \<Rightarrow> lesson_requirement \<Rightarrow> teacher list \<Rightarrow> classroom list \<Rightarrow> string \<Rightarrow> int
   \<Rightarrow> conflict_summary \<Rightarrow> conflict_summary \<times> conflict_msg option" where
  "scan_time_slot self req available_teachers suitable_classrooms d n summary =
     (let summary1 = summary\<lparr>total_slots_checked := total_slots_checked summary + 1\<rparr>;
          group_busy = busy_at self (\<lambda>s. class_group_id s = group_id req) d n
      in if group_busy then (summary1\<lparr>group_conflicts := group_conflicts summary1 + 1\<rparr>, None)
         else
           (let configured = filter (\<lambda>t. teacher_available_at t d n) available_teachers;
                teacher_busy = (\<lambda>t. busy_at self (\<lambda>s. teacher_id s = tch_id t) d n);
                available_teachers_for_slot = filter (\<lambda>t. \<not> teacher_busy t) configured;
                summary2 = summary1
                  \<lparr>teacher_conflicts := teacher_conflicts summary1 + length (filter teacher_busy configured),
                   teacher_unavailable := teacher_unavailable summary1 +
                     length (filter (\<lambda>t. \<not> teacher_available_at t d n) available_teachers)\<rparr>
            in if available_teachers_for_slot = [] then (summary2, None)
               else
                 (let classroom_busy = (\<lambda>c. busy_at self (\<lambda>s. classroom_id s = room_id c) d n);
                      free = filter (\<lambda>c. \<not> classroom_busy c) suitable_classrooms;
                      foreign_lab = (\<lambda>c. room_type c = ''teacher_lab'' \<and>
                        (case find_owner self (room_id c) of
                           None \<Rightarrow> False
                         | Some owner \<Rightarrow> owner \<notin> set available_teachers_for_slot));
                      available_classrooms_for_slot = filter (\<lambda>c. \<not> foreign_lab c) free;
                      summary3 = summary2
                        \<lparr>classroom_conflicts := classroom_conflicts summary2 +
                           length (filter classroom_busy suitable_classrooms)\<rparr>
                  in if available_classrooms_for_slot \<noteq> [] then
                       (summary3, Some (LogPotentialSlot d n (length available_teachers_for_slot)
                                          (length available_classrooms_for_slot)))
                     else (summary3, None))))"

fun scan_time_slots ::
  "schedule_generator \<Rightarrow> lesson_requirement \<Rightarrow> teacher list \<Rightarrow> classroom list
   \<Rightarrow> (string \<times> int) list \<Rightarrow> conflict_summary \<Rightarrow> conflict_summary \<times> conflict_msg option" where
  "scan_time_slots self req ts cs [] summary = (summary, None)"
| "scan_time_slots self req ts cs ((d, n) # rest) summary =
     (case scan_time_slot self req ts cs d n summary of
        (summary1, Some found) \<Rightarrow> (summary1, Some found)
      | (summary1, None) \<Rightarrow> scan_time_slots self req ts cs rest summary1)"

definition recommendation :: "lesson_requirement \<Rightarrow> conflict_summary \<Rightarrow> conflict_msg" where
  "recommendation req summary =
     (if teacher_unavailable summary > teacher_conflicts summary then LogRecIncreaseAvailability
      else if classroom_conflicts summary > teacher_conflicts summary
        then LogRecAddClassrooms (subject_type req)
      else if group_conflicts summary > 0 then LogRecGroupDense
      else LogRecComplex)"

definition analyze_time_slot_conflicts ::
  "schedule_generator \<Rightarrow> lesson_requirement \<Rightarrow> teacher list \<Rightarrow> classroom list \<Rightarrow> log_msg list" where
  "analyze_time_slot_conflicts self req available_teachers suitable_classrooms =
     Conflict (LogAnalyzing (length available_teachers) (length suitable_classrooms)) #
     (case scan_time_slots self req available_teachers suitable_classrooms
             [(d, n). d \<leftarrow> working_days (institution self),
                      n \<leftarrow> [1..lessons_per_day (institution self)]]
             \<lparr>teacher_conflicts = 0, classroom_conflicts = 0, group_conflicts = 0,
              teacher_unavailable = 0, total_slots_checked = 0\<rparr> of
        (summary, Some found) \<Rightarrow> [Conflict found]
      | (summary, None) \<Rightarrow>
          map Conflict
            [LogConflictResults,
             LogTotalChecked (total_slots_checked summary),
             LogGroupConflicts (group_conflicts summary),
             LogTeacherConflicts (teacher_conflicts summary),
             LogTeacherUnavailable (teacher_unavailable summary),
             LogClassroomConflicts (classroom_conflicts summary),
             recommendation req summary])"

text \<open>What step 4 of \<^verbatim>\<open>_analyze_scheduling_failure\<close> writes when no classroom is suitable.\<close>

definition no_classroom_messages :: "schedule_generator \<Rightarrow> lesson_requirement \<Rightarrow> failure_msg list" where
  "no_classroom_messages self req =
     (if subject_type req = ''lab'' then
        (let specialized_labs = get_specialized_classrooms_for_subject self (subject_id req) in
         if specialized_labs \<noteq> [] then
           LogSpecializedLabsUnavailable (length specialized_labs) #
           map (\<lambda>lab. LogLabOccupied (number lab)
                  (length (filter (\<lambda>s. classroom_id s = room_id lab) (schedule self))))
             specialized_labs
         else
           (let general_labs =
                  filter (\<lambda>c. room_type c = ''lab'' \<and> \<not> truthy (specialization c)) (classrooms self)
            in if general_labs = [] then [LogNoLabs]
               else [LogGeneralLabsUnavailable (length general_labs)]))
      else
        (let theory_classrooms =
               filter (\<lambda>c. room_type c = ''theory'' \<or> room_type c = ''teacher_lab'') (classrooms self)
         in if theory_classrooms = [] then [LogNoTheoryRooms]
            else [LogTheoryRoomsUnavailable (length theory_classrooms)]))"

definition total_available_hours :: "teacher \<Rightarrow> nat" where
  "total_available_hours t = sum_list (map (\<lambda>entry. length (snd entry)) (available_hours t))"

definition failure_diagnostics :: "schedule_generator \<Rightarrow> lesson_requirement \<Rightarrow> log_msg list" where
  "failure_diagnostics self req =
     Failure (LogFailed (subject_name req) (group_name req)) #
     (if available_teacher_ids req = [] then [Failure (LogNoTeachersAssigned (subject_name req))]
      else
        (let existing_teachers = List.map_filter (find_teacher self) (available_teacher_ids req);
             not_found = map (\<lambda>tid. Failure (LogTeacherNotFound tid))
               (filter (\<lambda>tid. find_teacher self tid = None) (available_teacher_ids req))
         in not_found @
            (if existing_teachers = [] then [Failure LogNoTeachersExist]
             else
               (let teachers_with_availability =
                      filter (\<lambda>t. total_available_hours t > 0) existing_teachers;
                    no_hours = map (\<lambda>t. Failure (LogTeacherNoHours (first_name t) (last_name t)))
                      (filter (\<lambda>t. \<not> total_available_hours t > 0) existing_teachers)
                in no_hours @
                   (if teachers_with_availability = [] then [Failure LogNoTeacherAvailability]
                    else
                      (let suitable_classrooms = get_suitable_classrooms_for_subject_type self
                             (subject_type req) (subject_id req)
                       in if suitable_classrooms = [] then
                            map Failure (no_classroom_messages self req)
                          else analyze_time_slot_conflicts self req teachers_with_availability
                                 suitable_classrooms))))))"

definition analyze_scheduling_failure ::
  "schedule_generator \<Rightarrow> lesson_requirement \<Rightarrow> schedule_generator" where
  "analyze_scheduling_failure self req = log_all self (failure_diagnostics self req)"

section \<open>Classroom information and the distribution report\<close>

definition specialization_subjects :: "classroom \<Rightarrow> string list" where
  "specialization_subjects c =
     (case specialization c of
        None \<Rightarrow> []
      | Some s \<Rightarrow> if s = [] then [] else py_split '', '' s)"

definition classroom_info_messages :: "schedule_generator \<Rightarrow> log_msg list" where
  "classroom_info_messages self =
     (let specialized_labs =
            filter (\<lambda>c. room_type c = ''lab'' \<and> truthy (specialization c)) (classrooms self);
          subject_label = (\<lambda>sid. case find_subject self sid of None \<Rightarrow> sid | Some s \<Rightarrow> subj_name s);
          part1 = (if specialized_labs = [] then []
                   else LogSpecializedLabsDetected #
                        map (\<lambda>lab. LogSpecializedRoom (number lab)
                               (py_join '', '' (map subject_label (specialization_subjects lab))))
                          specialized_labs);
          teacher_labs = filter (\<lambda>c. room_type c = ''teacher_lab'') (classrooms self);
          part2 = (if teacher_labs = [] then []
                   else LogTeacherLabsDetected #
                        map (\<lambda>lab. case find_owner self (room_id lab) of
                                      None \<Rightarrow> LogRoomNoOwner (number lab)
                                    | Some owner \<Rightarrow> LogRoomOwnedBy (number lab) (first_name owner)
                                        (last_name owner))
                          teacher_labs)
      in map ClassroomInfo (part1 @ part2))"

definition log_classroom_info :: "schedule_generator \<Rightarrow> schedule_generator" where
  "log_classroom_info self = log_all self (classroom_info_messages self)"

definition group_distribution :: "schedule_generator \<Rightarrow> class_group \<Rightarrow> distribution_msg list" where
  "group_distribution self grp =
     (let daily_lessons =
            map (\<lambda>d. length (filter (\<lambda>s. class_group_id s = cg_id grp \<and> day s = d) (schedule self)))
              (working_days (institution self));
          max_lessons = (if daily_lessons = [] then 0 else fold max (tl daily_lessons) (hd daily_lessons));
          min_lessons = (if daily_lessons = [] then 0 else fold min (tl daily_lessons) (hd daily_lessons))
      in if int max_lessons - int min_lessons > 2 then [LogUneven (cg_name grp) min_lessons max_lessons]
         else [])"

definition specialized_lab_usage :: "schedule_generator \<Rightarrow> classroom \<Rightarrow> distribution_msg list" where
  "specialized_lab_usage self lab =
     (let lessons_in_lab = filter (\<lambda>s. classroom_id s = room_id lab) (schedule self);
          allowed_subjects = specialization_subjects lab
      in [LogSpecializedLabUsage (number lab) (length lessons_in_lab),
          if list_ex (\<lambda>s. slot_subject_id s \<notin> set allowed_subjects) lessons_in_lab
          then LogUnauthorized (number lab) else LogAuthorizedOnly (number lab)])"

definition teacher_lab_usage :: "schedule_generator \<Rightarrow> classroom \<Rightarrow> distribution_msg list" where
  "teacher_lab_usage self lab =
     (let lessons_in_lab = filter (\<lambda>s. classroom_id s = room_id lab) (schedule self)
      in case find_owner self (room_id lab) of
           None \<Rightarrow> [LogUnassignedLabUsage (number lab) (length lessons_in_lab)]
         | Some owner \<Rightarrow>
             (let owner_lessons = filter (\<lambda>s. teacher_id s = tch_id owner) lessons_in_lab;
                  other_teacher_lessons = filter (\<lambda>s. teacher_id s \<noteq> tch_id owner) lessons_in_lab
              in [LogTeacherLabUsage (number lab) (first_name owner) (last_name owner)
                    (length lessons_in_lab),
                  LogOwnerLessons (length owner_lessons),
                  if other_teacher_lessons \<noteq> [] then LogOtherTeachers (length other_teacher_lessons)
                  else LogOnlyOwner]))"

definition distribution_messages :: "schedule_generator \<Rightarrow> log_msg list" where
  "distribution_messages self =
     map Distribution
       (LogOptimizing #
        concat (map (group_distribution self) (class_groups self)) @
        concat (map (specialized_lab_usage self)
          (filter (\<lambda>c. room_type c = ''lab'' \<and> truthy (specialization c)) (classrooms self))) @
        concat (map (teacher_lab_usage self)
          (filter (\<lambda>c. room_type c = ''teacher_lab'') (classrooms self))) @
        [LogOptimizationComplete])"

definition optimize_schedule_distribution :: "schedule_generator \<Rightarrow> schedule_generator" where
  "optimize_schedule_distribution self = log_all self (distribution_messages self)"

section \<open>The generation run\<close>

text \<open>
  The loop of \<^verbatim>\<open>generate_schedule\<close> over the sorted requirements, with its two
  counters. An exception leaves the loop with \<^verbatim>\<open>self\<close> as it is at that moment.
\<close>

fun schedule_all ::
  "schedule_generator \<Rightarrow> lesson_requirement list \<Rightarrow> nat \<Rightarrow> nat
   \<Rightarrow> (py_error \<times> schedule_generator) + (schedule_generator \<times> nat \<times> nat)" where
  "schedule_all self [] scheduled_count failed_count = Inr (self, scheduled_count, failed_count)"
| "schedule_all self (requirement # rest) scheduled_count failed_count =
     (case schedule_lesson self requirement of
        Inl e \<Rightarrow> Inl (e, self)
      | Inr (self1, ok) \<Rightarrow>
          if ok then schedule_all self1 rest (scheduled_count + 1) failed_count
          else schedule_all (analyze_scheduling_failure self1 requirement) rest
                 scheduled_count (failed_count + 1))"

datatype result_error = ErrorMessage string | ErrorException py_error

record generation_result =
  success :: bool
  result_schedule :: "schedule_slot list"
  error :: "result_error option"
  result_logs :: "log_msg list"

text \<open>The \<^verbatim>\<open>except\<close> branch of \<^verbatim>\<open>generate_schedule\<close>.\<close>

definition generation_failed ::
  "py_error \<Rightarrow> schedule_generator \<Rightarrow> generation_result \<times> schedule_generator" where
  "generation_failed e self =
     (let self1 = log self (Progress (LogGenerationError e))
      in (\<lparr>success = False, result_schedule = [], error = Some (ErrorException e),
           result_logs = logs self1\<rparr>, self1))"

text \<open>
  The first statements of \<^verbatim>\<open>generate_schedule\<close>: the start message is written, then
  \<^verbatim>\<open>self.schedule\<close> and \<^verbatim>\<open>self.logs\<close> are set to the empty list.
\<close>

definition reset_state :: "schedule_generator \<Rightarrow> schedule_generator" where
  "reset_state self = (log self (Progress LogStarting))\<lparr>schedule := [], logs := []\<rparr>"

text \<open>
  The part of the \<^verbatim>\<open>try\<close> block from the end of validation to the end of the loop. It
  ends with the exception raised and \<^verbatim>\<open>self\<close> at that moment, or with \<^verbatim>\<open>self\<close> and
  the two counters.
\<close>

definition schedule_requirements ::
  "schedule_generator \<Rightarrow> (py_error \<times> schedule_generator) + (schedule_generator \<times> nat \<times> nat)" where
  "schedule_requirements self1 =
     (let self2 = log_classroom_info (log self1 (Progress LogValidationPassed)) in
      case generate_lesson_requirements self2 of
        Inl e \<Rightarrow> Inl (e, self2)
      | Inr lesson_requirements \<Rightarrow>
          (let self3 = log self2 (Progress (LogGenerated (length lesson_requirements)));
               sorted_requirements = prioritize_requirements lesson_requirements;
               self4 = log self3 (Progress LogPrioritized)
           in schedule_all self4 sorted_requirements 0 0))"

definition no_lessons_message :: string where
  "no_lessons_message =
     ''No lessons could be scheduled. Check teacher availability and classroom assignments.''"

definition generate_schedule :: "schedule_generator \<Rightarrow> generation_result \<times> schedule_generator" where
  "generate_schedule self0 =
     (let self1 = reset_state self0 in
      case validate_input_data self1 of
        Invalid message \<Rightarrow>
          (\<lparr>success = False, result_schedule = [], error = Some (ErrorMessage message),
            result_logs = logs self1\<rparr>, self1)
      | Valid \<Rightarrow>
          (case schedule_requirements self1 of
             Inl (e, self5) \<Rightarrow> generation_failed e self5
           | Inr (self5, scheduled_count, failed_count) \<Rightarrow>
               (let self6 = log self5 (Progress (LogComplete scheduled_count failed_count))
                in if scheduled_count = 0 then
                     (\<lparr>success = False, result_schedule = [],
                       error = Some (ErrorMessage no_lessons_message),
                       result_logs = logs self6\<rparr>, self6)
                   else
                     (let self7 = optimize_schedule_distribution self6
                      in (\<lparr>success = True, result_schedule = schedule self7, error = None,
                           result_logs = logs self7\<rparr>, self7)))))"

section \<open>The properties of the specification\<close>

text \<open>
  No double-booking: two committed slots at different positions of the schedule that
  share day and lesson number differ in group, in teacher and in classroom.
\<close>

definition clash :: "schedule_slot \<Rightarrow> schedule_slot \<Rightarrow> bool" where
  "clash s1 s2 =
     (day s1 = day s2 \<and> lesson_number s1 = lesson_number s2 \<and>
      (class_group_id s1 = class_group_id s2 \<or> teacher_id s1 = teacher_id s2 \<or>
       classroom_id s1 = classroom_id s2))"

definition no_double_booking :: "schedule_slot list \<Rightarrow> bool" where
  "no_double_booking sch =
     (\<forall>i < length sch. \<forall>j < length sch.
        i \<noteq> j \<and> day (sch ! i) = day (sch ! j) \<and> lesson_number (sch ! i) = lesson_number (sch ! j)
        \<longrightarrow> class_group_id (sch ! i) \<noteq> class_group_id (sch ! j) \<and>
            teacher_id (sch ! i) \<noteq> teacher_id (sch ! j) \<and>
            classroom_id (sch ! i) \<noteq> classroom_id (sch ! j))"

text \<open>
  Teacher-lab exclusivity of one slot: when its classroom (looked up by id, as the
  generator does) has type \<^verbatim>\<open>teacher_lab\<close> and an owner, the slot's teacher is the owner.
\<close>

definition owner_teaches :: "schedule_generator \<Rightarrow> schedule_slot \<Rightarrow> bool" where
  "owner_teaches self s =
     (case find_classroom self (classroom_id s) of
        None \<Rightarrow> True
      | Some c \<Rightarrow>
          if room_type c = ''teacher_lab'' then
            (case find_owner self (room_id c) of
               None \<Rightarrow> True
             | Some owner \<Rightarrow> teacher_id s = tch_id owner)
          else True)"

text \<open>The domain of a slot: a working day and a lesson number from 1 to \<^verbatim>\<open>lessons_per_day\<close>.\<close>

definition slot_in_domain :: "institution \<Rightarrow> schedule_slot \<Rightarrow> bool" where
  "slot_in_domain inst s =
     (day s \<in> set (working_days inst) \<and> 1 \<le> lesson_number s \<and>
      lesson_number s \<le> lessons_per_day inst)"











text \<open>
  The specification's number of requirements for one entry of a group's subject hours.
\<close>

definition spec_requirement_count :: "schedule_generator \<Rightarrow> string \<Rightarrow> int \<Rightarrow> nat" where
  "spec_requirement_count self sid yearly_hours =
     (if yearly_hours > 0 \<and>
         (case find_subject self sid of None \<Rightarrow> False | Some subject \<Rightarrow> teacher_ids subject \<noteq> [])
      then nat (max 1 (yearly_hours div academic_weeks (institution self)))
      else 0)"

section \<open>Inputs for concrete checks\<close>


text \<open>
  A small school: two days of two lessons, one group that needs three weekly lessons of a
  theory subject, its one teacher, free on Monday only, the teacher's own room and a
  theory room.
\<close>

definition small_institution :: institution where
  "small_institution =
     \<lparr>working_days = [''Mon'', ''Tue''], lessons_per_day = 2, lesson_duration = 70,
      break_durations = [10], start_time = ''09:00'', academic_weeks = 40\<rparr>"

definition small_school :: schedule_generator where
  "small_school =
     \<lparr>institution = small_institution,
      class_groups = [\<lparr>cg_id = ''G1'', cg_name = ''Group 1'', students_count = 25,
                       subject_hours = [(''S1'', 120)]\<rparr>],
      subjects = [\<lparr>subj_id = ''S1'', subj_name = ''History'', subj_type = ''theory'',
                   teacher_ids = [''T1'']\<rparr>],
      teachers = [\<lparr>tch_id = ''T1'', first_name = ''Ada'', last_name = ''Byron'',
                   available_hours = [(''Mon'', [1, 2])], home_classroom = Some ''R1''\<rparr>],
      classrooms = [\<lparr>room_id = ''R1'', number = ''101'', room_type = ''teacher_lab'',
                     specialization = None\<rparr>,
                    \<lparr>room_id = ''R2'', number = ''102'', room_type = ''theory'',
                     specialization = None\<rparr>],
      schedule = [], logs = []\<rparr>"

text \<open>
  A school with a laboratory specialized for the one subject and a general laboratory,
  and two groups that both need the subject in the only lesson of the week; the
  requirement derived for the second group; and the school once the first group has its
  lesson in the specialized laboratory.
\<close>

definition lab_school :: schedule_generator where
  "lab_school =
     \<lparr>institution = \<lparr>working_days = [''Mon''], lessons_per_day = 1, lesson_duration = 70,
                      break_durations = [], start_time = ''09:00'', academic_weeks = 40\<rparr>,
      class_groups = [\<lparr>cg_id = ''G1'', cg_name = ''Group 1'', students_count = 25,
                       subject_hours = [(''S1'', 40)]\<rparr>,
                      \<lparr>cg_id = ''G2'', cg_name = ''Group 2'', students_count = 25,
                       subject_hours = [(''S1'', 40)]\<rparr>],
      subjects = [\<lparr>subj_id = ''S1'', subj_name = ''Chemistry'', subj_type = ''lab'',
                   teacher_ids = [''T1'', ''T2'']\<rparr>],
      teachers = [\<lparr>tch_id = ''T1'', first_name = ''Ada'', last_name = ''Byron'',
                   available_hours = [(''Mon'', [1])], home_classroom = None\<rparr>,
                  \<lparr>tch_id = ''T2'', first_name = ''Carl'', last_name = ''Gauss'',
                   available_hours = [(''Mon'', [1])], home_classroom = None\<rparr>],
      classrooms = [\<lparr>room_id = ''L1'', number = ''201'', room_type = ''lab'',
                     specialization = Some ''S1''\<rparr>,
                    \<lparr>room_id = ''L2'', number = ''202'', room_type = ''lab'',
                     specialization = None\<rparr>],
      schedule = [], logs = []\<rparr>"







definition chemistry_for_group_2 :: lesson_requirement where
  "chemistry_for_group_2 =
     \<lparr>req_id = ''G2-S1-0'', group_id = ''G2'', group_name = ''Group 2'', subject_id = ''S1'',
      subject_name = ''Chemistry'', subject_type = ''lab'', available_teacher_ids = [''T1'', ''T2''],
      priority = - 30\<rparr>"

definition lab_school_after_group_1 :: schedule_generator where
  "lab_school_after_group_1 =
     lab_school\<lparr>schedule :=
       [\<lparr>day = ''Mon'', lesson_number = 1, class_group_id = ''G1'', slot_subject_id = ''S1'',
         teacher_id = ''T1'', classroom_id = ''L1'', slot_start_time = ''09:00'',
         slot_end_time = ''10:10''\<rparr>]\<rparr>"

text \<open>
  The first requirement derived for the small school, the slots of its teacher's two
  Monday lessons in the teacher's own room, the slot of the first lesson in the theory
  room, and the generator after the first lesson has been scheduled.
\<close>

definition history_for_group_1 :: lesson_requirement where
  "history_for_group_1 =
     \<lparr>req_id = ''G1-S1-0'', group_id = ''G1'', group_name = ''Group 1'', subject_id = ''S1'',
      subject_name = ''History'', subject_type = ''theory'', available_teacher_ids = [''T1''],
      priority = - 1\<rparr>"

definition first_history_slot :: schedule_slot where
  "first_history_slot =
     \<lparr>day = ''Mon'', lesson_number = 1, class_group_id = ''G1'', slot_subject_id = ''S1'',
      teacher_id = ''T1'', classroom_id = ''R1'', slot_start_time = ''09:00'',
      slot_end_time = ''10:10''\<rparr>"

definition second_history_slot :: schedule_slot where
  "second_history_slot =
     \<lparr>day = ''Mon'', lesson_number = 2, class_group_id = ''G1'', slot_subject_id = ''S1'',
      teacher_id = ''T1'', classroom_id = ''R1'', slot_start_time = ''10:20'',
      slot_end_time = ''11:30''\<rparr>"

definition theory_room_slot :: schedule_slot where
  "theory_room_slot =
     \<lparr>day = ''Mon'', lesson_number = 1, class_group_id = ''G1'', slot_subject_id = ''S1'',
      teacher_id = ''T1'', classroom_id = ''R2'', slot_start_time = ''09:00'',
      slot_end_time = ''10:10''\<rparr>"

definition after_first_lesson :: schedule_generator where
  "after_first_lesson =
     small_school\<lparr>schedule := [first_history_slot],
       logs := [Progress (LogScheduled ''History'' ''Group 1'' ''Mon'' 1 (Some ''101'')
                  (Some (''Ada'', ''Byron'')) (Some (''Ada'', ''Byron'')))]\<rparr>"

text \<open>The small school with a start time that is not a time, with a teacher who has no
  available hours, and without class groups.\<close>

definition broken_clock_school :: schedule_generator where
  "broken_clock_school = small_school\<lparr>institution := small_institution\<lparr>start_time := ''nine''\<rparr>\<rparr>"


definition no_groups_school :: schedule_generator where
  "no_groups_school = small_school\<lparr>class_groups := []\<rparr>"

section \<open>Lesson times: proofs\<close>






text \<open>
  \<^verbatim>\<open>int\<close> skips a no-break space but not the separator with code 31, which
  \<^verbatim>\<open>strip\<close> removes; a start time needs exactly two parts.
\<close>

lemma py_int_examples:
  "py_int [CHR 0xA0, CHR ''9''] = Some 9" "py_int [CHR 0x1F, CHR ''0'', CHR ''9''] = None"
  "py_strip [CHR 0x1F, CHR ''0'', CHR ''9'', CHR 0xA0] = ''09''"
  "py_int '' -1_0 '' = Some (- 10)" "py_int ''1 0'' = None" "py_int [] = None"
  by code_simp+

lemma parse_start_time_examples:
  "parse_start_time ''0900'' = Inl ValueError" "parse_start_time ''09:00:00'' = Inl ValueError"
  "parse_start_time ''09:xx'' = Inl ValueError" "parse_start_time ''-1:30'' = Inr (- 1, 30)"
  by code_simp+






















section \<open>Candidate slots: proofs\<close>

lemma collect_Inr_set:
  "collect f xs = Inr ys \<Longrightarrow> y \<in> set ys \<Longrightarrow> \<exists>x \<in> set xs. \<exists>zs. f x = Inr zs \<and> y \<in> set zs"
  by (induction xs arbitrary: ys) (auto split: sum.splits)

lemma candidate_combinationsD:
  "(d, n, tid, c) \<in> set (candidate_combinations self req) \<Longrightarrow>
   d \<in> set (working_days (institution self)) \<and> 1 \<le> n \<and> n \<le> lessons_per_day (institution self) \<and>
   tid \<in> set (available_teacher_ids req) \<and>
   (\<exists>t. find_teacher self tid = Some t \<and> teacher_available_at t d n) \<and>
   c \<in> set (get_suitable_classrooms_for_teacher self (subject_type req) (subject_id req) tid) \<and>
   is_slot_available self (group_id req) tid (room_id c) d n"
  by (auto simp: candidate_combinations_def split: option.splits if_splits)

lemma find_available_slotsD:
  assumes "find_available_slots self req = Inr slots" "b \<in> set slots"
  shows "\<exists>d n tid c st en. (d, n, tid, c) \<in> set (candidate_combinations self req) \<and>
           calculate_lesson_time (institution self) n = Inr (st, en) \<and>
           b = \<lparr>day = d, lesson_number = n, class_group_id = group_id req,
                slot_subject_id = subject_id req, teacher_id = tid, classroom_id = room_id c,
                slot_start_time = st, slot_end_time = en\<rparr>"
proof -
  from collect_Inr_set[OF assms[unfolded find_available_slots_def]]
  obtain x zs where x: "x \<in> set (candidate_combinations self req)"
    and zs: "make_slot (institution self) req x = Inr zs" "b \<in> set zs" by blast
  obtain d n tid c where xe: "x = (d, n, tid, c)" by (cases x) auto
  from zs xe obtain st en where "calculate_lesson_time (institution self) n = Inr (st, en)"
    "b = \<lparr>day = d, lesson_number = n, class_group_id = group_id req,
                slot_subject_id = subject_id req, teacher_id = tid, classroom_id = room_id c,
                slot_start_time = st, slot_end_time = en\<rparr>"
    by (auto simp: make_slot_def split: sum.splits)
  with x xe show ?thesis by blast
qed

section \<open>Specialized laboratories: proofs\<close>










section \<open>Requirement derivation: proofs\<close>

lemma find_subject_id: "find_subject self sid = Some s \<Longrightarrow> subj_id s = sid"
  by (auto simp: find_subject_def find_Some_iff)

lemma requirements_for_entry_total:
  assumes "academic_weeks (institution self) \<noteq> 0"
  shows "requirements_for_entry self grp (sid, yh) =
     Inr (if yh > 0 then
            (case find_subject self sid of
               None \<Rightarrow> []
             | Some subject \<Rightarrow>
                 if teacher_ids subject \<noteq> [] then
                   map (make_requirement self grp sid subject)
                     [0..max 1 (yh div academic_weeks (institution self)) - 1]
                 else [])
          else [])"
  using assms by (simp add: requirements_for_entry_def weekly_hours_def split: option.splits)

lemma entry_requirements_fields:
  assumes "academic_weeks (institution self) \<noteq> 0"
    and "requirements_for_entry self grp (sid, yh) = Inr rs" and "r \<in> set rs"
  shows "group_id r = cg_id grp \<and> subject_id r = sid"
  using assms(2,3) unfolding requirements_for_entry_total[OF assms(1)]
  by (auto simp: make_requirement_def find_subject_id split: if_splits option.splits)

lemma entry_requirements_length:
  assumes "academic_weeks (institution self) \<noteq> 0"
    and "requirements_for_entry self grp (sid, yh) = Inr rs"
  shows "length rs = spec_requirement_count self sid yh"
  using assms(2) unfolding requirements_for_entry_total[OF assms(1)]
  by (auto simp: spec_requirement_count_def split: if_splits option.splits)

lemma collect_total:
  "(\<And>x. x \<in> set xs \<Longrightarrow> \<exists>ys. f x = Inr ys) \<Longrightarrow>
   collect f xs = Inr (concat (map (\<lambda>x. projr (f x)) xs))"
proof (induction xs)
  case Nil
  then show ?case by simp
next
  case (Cons a xs)
  from Cons.prems[of a] obtain ys where "f a = Inr ys" by auto
  moreover have "collect f xs = Inr (concat (map (\<lambda>x. projr (f x)) xs))"
    using Cons by simp
  ultimately show ?case by simp
qed

lemma length_filter_concat:
  "length (filter P (concat (map h xs))) = sum_list (map (\<lambda>x. length (filter P (h x))) xs)"
  by (induction xs) auto

lemma sum_list_single:
  fixes h :: "'a \<Rightarrow> nat"
  assumes "distinct (map k xs)" "x \<in> set xs"
    and "\<And>y. y \<in> set xs \<Longrightarrow> k y \<noteq> k x \<Longrightarrow> h y = 0"
  shows "sum_list (map h xs) = h x"
  using assms
proof (induction xs)
  case Nil
  then show ?case by simp
next
  case (Cons a xs)
  show ?case
  proof (cases "a = x")
    case True
    have "\<forall>y \<in> set xs. h y = 0"
    proof
      fix y assume y: "y \<in> set xs"
      from Cons.prems(1) True have "k x \<notin> set (map k xs)" by simp
      moreover from y have "k y \<in> set (map k xs)" by simp
      ultimately have "k y \<noteq> k x" by metis
      with y Cons.prems(3) show "h y = 0" by simp
    qed
    then have "sum_list (map h xs) = 0" by simp
    with True show ?thesis by simp
  next
    case False
    with Cons.prems have xin: "x \<in> set xs" by simp
    with Cons.prems(1) have "k a \<noteq> k x" by auto
    with Cons.prems(3)[of a] have "h a = 0" by simp
    moreover have "sum_list (map h xs) = h x"
      using Cons.IH Cons.prems xin by simp
    ultimately show ?thesis by simp
  qed
qed

lemma requirements_for_group_total:
  assumes aw: "academic_weeks (institution self) \<noteq> 0"
  shows "requirements_for_group self grp =
     Inr (concat (map (\<lambda>e. projr (requirements_for_entry self grp e)) (subject_hours grp)))"
proof -
  have "\<And>e. \<exists>ys. requirements_for_entry self grp e = Inr ys"
  proof -
    fix e show "\<exists>ys. requirements_for_entry self grp e = Inr ys"
      using requirements_for_entry_total[OF aw, of grp "fst e" "snd e"] by simp
  qed
  from collect_total[of "subject_hours grp" "requirements_for_entry self grp", OF this]
  show ?thesis by (simp add: requirements_for_group_def)
qed

lemma entry_filter:
  assumes aw: "academic_weeks (institution self) \<noteq> 0"
  shows "length (filter (\<lambda>r. group_id r = gid \<and> subject_id r = sid)
            (projr (requirements_for_entry self grp (sid', yh)))) =
         (if cg_id grp = gid \<and> sid' = sid then spec_requirement_count self sid' yh else 0)"
proof -
  obtain rs where rs: "requirements_for_entry self grp (sid', yh) = Inr rs"
    using requirements_for_entry_total[OF aw] by blast
  have f: "\<forall>r \<in> set rs. group_id r = cg_id grp \<and> subject_id r = sid'"
    using entry_requirements_fields[OF aw rs] by blast
  show ?thesis
  proof (cases "cg_id grp = gid \<and> sid' = sid")
    case True
    with f have "filter (\<lambda>r. group_id r = gid \<and> subject_id r = sid) rs = rs"
      by (auto intro: filter_True)
    with True rs entry_requirements_length[OF aw rs] show ?thesis by simp
  next
    case False
    with f have "filter (\<lambda>r. group_id r = gid \<and> subject_id r = sid) rs = []"
      by (auto simp: filter_empty_conv)
    with False rs show ?thesis by auto
  qed
qed

lemma group_filter:
  assumes aw: "academic_weeks (institution self) \<noteq> 0"
  shows "cg_id grp \<noteq> gid \<Longrightarrow>
         length (filter (\<lambda>r. group_id r = gid \<and> subject_id r = sid)
            (projr (requirements_for_group self grp))) = 0"
    and "cg_id grp = gid \<Longrightarrow> distinct (map fst (subject_hours grp)) \<Longrightarrow>
         (sid, yh) \<in> set (subject_hours grp) \<Longrightarrow>
         length (filter (\<lambda>r. group_id r = gid \<and> subject_id r = sid)
            (projr (requirements_for_group self grp))) = spec_requirement_count self sid yh"
proof -
  let ?P = "\<lambda>r. group_id r = gid \<and> subject_id r = sid"
  let ?h = "\<lambda>e. length (filter ?P (projr (requirements_for_entry self grp e)))"
  have len: "length (filter ?P (projr (requirements_for_group self grp))) =
      sum_list (map ?h (subject_hours grp))"
    by (simp add: requirements_for_group_total[OF aw] length_filter_concat)
  have h: "\<And>e. ?h e = (if cg_id grp = gid \<and> fst e = sid then spec_requirement_count self (fst e) (snd e) else 0)"
  proof -
    fix e show "?h e = (if cg_id grp = gid \<and> fst e = sid then spec_requirement_count self (fst e) (snd e) else 0)"
      using entry_filter[OF aw, of gid sid grp "fst e" "snd e"] by simp
  qed
  {
    assume "cg_id grp \<noteq> gid"
    then have "\<forall>e \<in> set (subject_hours grp). ?h e = 0" using h by simp
    then have "sum_list (map ?h (subject_hours grp)) = 0" by simp
    with len show "length (filter ?P (projr (requirements_for_group self grp))) = 0" by simp
  }
  {
    assume g: "cg_id grp = gid" and d: "distinct (map fst (subject_hours grp))"
      and m: "(sid, yh) \<in> set (subject_hours grp)"
    have "sum_list (map ?h (subject_hours grp)) = ?h (sid, yh)"
    proof (rule sum_list_single[where k = fst, OF d m])
      fix y assume "y \<in> set (subject_hours grp)" "fst y \<noteq> fst (sid, yh)"
      then show "?h y = 0" using h[of y] by simp
    qed
    with len h[of "(sid, yh)"] g
    show "length (filter ?P (projr (requirements_for_group self grp))) = spec_requirement_count self sid yh"
      by simp
  }
qed

text \<open>
  Claim C5. With a non-zero number of academic weeks, distinct group ids and distinct keys
  in the group's subject hours, the requirements \<^verbatim>\<open>_generate_lesson_requirements\<close> returns
  hold, for a group and an entry \<open>(sid, yearly_hours)\<close> of its subject hours, exactly
  \<open>max 1 (yearly_hours div academic_weeks)\<close> requirements of that group and subject when
  \<open>yearly_hours\<close> is positive and the id resolves to a subject with teachers, and none
  otherwise. With 40 academic weeks, 280 yearly hours are 7 weekly hours and 10 yearly
  hours are 1.
\<close>

theorem requirement_derivation:
  "(academic_weeks (institution self) \<noteq> 0 \<and> distinct (map cg_id (class_groups self)) \<and>
    grp \<in> set (class_groups self) \<and> distinct (map fst (subject_hours grp)) \<and>
    (sid, yearly_hours) \<in> set (subject_hours grp) \<longrightarrow>
      (\<exists>requirements. generate_lesson_requirements self = Inr requirements \<and>
         length (filter (\<lambda>r. group_id r = cg_id grp \<and> subject_id r = sid) requirements)
           = spec_requirement_count self sid yearly_hours))
   \<and> (academic_weeks (institution self) = 40 \<longrightarrow>
        weekly_hours (institution self) 280 = Inr 7 \<and> weekly_hours (institution self) 10 = Inr 1)"
proof (intro conjI impI)
  assume a: "academic_weeks (institution self) \<noteq> 0 \<and> distinct (map cg_id (class_groups self)) \<and>
    grp \<in> set (class_groups self) \<and> distinct (map fst (subject_hours grp)) \<and>
    (sid, yearly_hours) \<in> set (subject_hours grp)"
  then have aw: "academic_weeks (institution self) \<noteq> 0" by simp
  let ?P = "\<lambda>r. group_id r = cg_id grp \<and> subject_id r = sid"
  let ?h = "\<lambda>g. length (filter ?P (projr (requirements_for_group self g)))"
  have tot: "generate_lesson_requirements self =
      Inr (concat (map (\<lambda>g. projr (requirements_for_group self g)) (class_groups self)))"
    unfolding generate_lesson_requirements_def
    by (rule collect_total) (simp add: requirements_for_group_total[OF aw])
  have "sum_list (map ?h (class_groups self)) = ?h grp"
  proof (rule sum_list_single[where k = cg_id])
    show "distinct (map cg_id (class_groups self))" using a by simp
    show "grp \<in> set (class_groups self)" using a by simp
    fix y assume "y \<in> set (class_groups self)" "cg_id y \<noteq> cg_id grp"
    then show "?h y = 0" using group_filter(1)[OF aw] by simp
  qed
  also have "\<dots> = spec_requirement_count self sid yearly_hours"
    using group_filter(2)[OF aw, of grp "cg_id grp" sid yearly_hours] a by simp
  finally show "\<exists>requirements. generate_lesson_requirements self = Inr requirements \<and>
         length (filter ?P requirements) = spec_requirement_count self sid yearly_hours"
    using tot by (simp add: length_filter_concat)
next
  assume w: "academic_weeks (institution self) = 40"
  then show "weekly_hours (institution self) 280 = Inr 7" by (simp add: weekly_hours_def)
  from w show "weekly_hours (institution self) 10 = Inr 1" by (simp add: weekly_hours_def)
qed

theorem requirement_derivation_witness:
  "academic_weeks (institution small_school) \<noteq> 0 \<and>
   distinct (map cg_id (class_groups small_school)) \<and>
   hd (class_groups small_school) \<in> set (class_groups small_school) \<and>
   distinct (map fst (subject_hours (hd (class_groups small_school)))) \<and>
   (''S1'', 120) \<in> set (subject_hours (hd (class_groups small_school))) \<and>
   spec_requirement_count small_school ''S1'' 120 = 3 \<and>
   (\<exists>requirements. generate_lesson_requirements small_school = Inr requirements \<and>
      length (filter (\<lambda>r. group_id r = cg_id (hd (class_groups small_school)) \<and> subject_id r = ''S1'')
                requirements) = 3)"
proof -
  have c: "spec_requirement_count small_school ''S1'' 120 = 3"
    by (simp add: spec_requirement_count_def find_subject_def small_school_def
        small_institution_def)
  from requirement_derivation[of small_school "hd (class_groups small_school)" "''S1''" 120] c
  show ?thesis by (simp add: small_school_def small_institution_def)
qed

section \<open>Specialized laboratories: a concrete check\<close>



section \<open>Invariants of the run\<close>

lemma log_fields [simp]:
  "schedule (log self m) = schedule self" "institution (log self m) = institution self"
  "teachers (log self m) = teachers self" "classrooms (log self m) = classrooms self"
  "class_groups (log self m) = class_groups self" "subjects (log self m) = subjects self"
  "logs (log self m) = logs self @ [m]"
  by (simp_all add: log_def)

lemma log_all_fields [simp]:
  "schedule (log_all self ms) = schedule self" "institution (log_all self ms) = institution self"
  "teachers (log_all self ms) = teachers self" "classrooms (log_all self ms) = classrooms self"
  "class_groups (log_all self ms) = class_groups self" "subjects (log_all self ms) = subjects self"
  "logs (log_all self ms) = logs self @ ms"
  unfolding log_all_def by (induction ms arbitrary: self) simp_all

lemma select_best_slot_in:
  assumes "select_best_slot self slots req = Some b"
  shows "b \<in> set slots"
proof -
  let ?xs = "map (\<lambda>slot. (slot, score_slot self slot req)) slots"
  from assms have ne: "slots \<noteq> []" and b: "b = fst (hd (sort_key (\<lambda>x. - snd x) ?xs))"
    by (auto simp: select_best_slot_def Let_def split: if_splits)
  from ne have "sort_key (\<lambda>x. - snd x) ?xs \<noteq> []"
    by (metis length_0_conv length_map length_sort)
  then have "hd (sort_key (\<lambda>x. - snd x) ?xs) \<in> set (sort_key (\<lambda>x. - snd x) ?xs)"
    by (rule hd_in_set)
  then have "hd (sort_key (\<lambda>x. - snd x) ?xs) \<in> set ?xs" by simp
  with b show ?thesis by auto
qed

lemma schedule_lesson_cases:
  assumes "schedule_lesson self req = Inr (self1, ok)"
  shows "(\<not> ok \<and> (self1 = self \<or> (\<exists>m. self1 = log self m))) \<or>
         (ok \<and> (\<exists>slots b m. find_available_slots self req = Inr slots \<and> b \<in> set slots \<and>
                   select_best_slot self slots req = Some b \<and>
                   self1 = log (self\<lparr>schedule := schedule self @ [b]\<rparr>) m))"
proof -
  from assms obtain slots where fs: "find_available_slots self req = Inr slots"
    by (auto simp: schedule_lesson_def split: sum.splits)
  show ?thesis
  proof (cases "slots = []")
    case True
    with assms fs show ?thesis by (auto simp: schedule_lesson_def)
  next
    case False
    show ?thesis
    proof (cases "select_best_slot self slots req")
      case None
      with assms fs False show ?thesis by (auto simp: schedule_lesson_def)
    next
      case (Some b)
      from select_best_slot_in[OF Some] have "b \<in> set slots" .
      with assms fs False Some show ?thesis
        by (auto simp: schedule_lesson_def Let_def)
    qed
  qed
qed

lemma slot_facts:
  assumes "find_available_slots self req = Inr slots" "b \<in> set slots"
  shows "slot_in_domain (institution self) b"
    and "class_group_id b = group_id req"
    and "slot_subject_id b = subject_id req"
    and "is_slot_available self (group_id req) (teacher_id b) (classroom_id b) (day b) (lesson_number b)"
    and "\<exists>c \<in> set (get_suitable_classrooms_for_teacher self (subject_type req) (subject_id req)
                     (teacher_id b)). classroom_id b = room_id c"
    and "\<exists>t. find_teacher self (teacher_id b) = Some t"
proof -
  from find_available_slotsD[OF assms] obtain d n tid c st en where
    cand: "(d, n, tid, c) \<in> set (candidate_combinations self req)"
    and b: "b = \<lparr>day = d, lesson_number = n, class_group_id = group_id req,
                slot_subject_id = subject_id req, teacher_id = tid, classroom_id = room_id c,
                slot_start_time = st, slot_end_time = en\<rparr>" by blast
  note f = candidate_combinationsD[OF cand]
  from f b show "slot_in_domain (institution self) b" by (simp add: slot_in_domain_def)
  from b show "class_group_id b = group_id req" by simp
  from b show "slot_subject_id b = subject_id req" by simp
  from f b show "is_slot_available self (group_id req) (teacher_id b) (classroom_id b) (day b) (lesson_number b)"
    by simp
  from f b show "\<exists>c \<in> set (get_suitable_classrooms_for_teacher self (subject_type req) (subject_id req)
                     (teacher_id b)). classroom_id b = room_id c" by auto
  from f b show "\<exists>t. find_teacher self (teacher_id b) = Some t" by auto
qed

lemma is_slot_available_no_clash:
  assumes "is_slot_available self gid tid cid d n" "s \<in> set (schedule self)"
  shows "\<not> ((class_group_id s = gid \<or> teacher_id s = tid \<or> classroom_id s = cid) \<and>
            day s = d \<and> lesson_number s = n)"
  using assms by (auto simp: is_slot_available_def Let_def list_ex_iff split: if_splits)

lemma is_slot_available_owner:
  assumes "is_slot_available self gid tid cid d n"
    "find_classroom self cid = Some c" "room_type c = ''teacher_lab''"
    "find_owner self (room_id c) = Some owner"
  shows "tid = tch_id owner"
  using assms by (auto simp: is_slot_available_def Let_def split: if_splits)

lemma no_double_booking_pairs:
  "no_double_booking sch \<longleftrightarrow> sorted_wrt (\<lambda>s1 s2. \<not> clash s1 s2) sch"
proof
  assume n: "no_double_booking sch"
  show "sorted_wrt (\<lambda>s1 s2. \<not> clash s1 s2) sch"
    unfolding sorted_wrt_iff_nth_less
  proof (intro allI impI)
    fix i j assume "i < j" "j < length sch"
    then have "i < length sch" "j < length sch" "i \<noteq> j" by auto
    with n show "\<not> clash (sch ! i) (sch ! j)"
      unfolding no_double_booking_def clash_def by blast
  qed
next
  assume s: "sorted_wrt (\<lambda>s1 s2. \<not> clash s1 s2) sch"
  have sym: "\<And>a b. clash a b \<Longrightarrow> clash b a" by (auto simp: clash_def)
  have "\<And>i j. i < length sch \<Longrightarrow> j < length sch \<Longrightarrow> i \<noteq> j \<Longrightarrow> \<not> clash (sch ! i) (sch ! j)"
  proof -
    fix i j assume ij: "i < length sch" "j < length sch" "i \<noteq> j"
    show "\<not> clash (sch ! i) (sch ! j)"
    proof (cases "i < j")
      case True
      with s ij show ?thesis by (simp add: sorted_wrt_iff_nth_less)
    next
      case False
      with ij have "j < i" by simp
      with s ij have "\<not> clash (sch ! j) (sch ! i)" by (simp add: sorted_wrt_iff_nth_less)
      with sym show ?thesis by blast
    qed
  qed
  then show "no_double_booking sch"
    unfolding no_double_booking_def clash_def by blast
qed

lemma no_double_booking_append:
  assumes "no_double_booking sch" "\<forall>s \<in> set sch. \<not> clash s b"
  shows "no_double_booking (sch @ [b])"
  using assms by (simp add: no_double_booking_pairs sorted_wrt_append)

text \<open>
  A property of the generator that no log entry changes and that every call of
  \<^verbatim>\<open>_schedule_lesson\<close> keeps holds throughout the loop, and in the generator
  \<^verbatim>\<open>generate_schedule\<close> leaves behind.
\<close>

lemma log_all_keeps:
  assumes "\<And>self m. I (log self m) = I self"
  shows "I (log_all self ms) = I self"
  unfolding log_all_def using assms by (induction ms arbitrary: self) simp_all

lemma schedule_all_keeps:
  assumes lg: "\<And>self m. I (log self m) = I self"
    and step: "\<And>self req self1 ok. I self \<Longrightarrow> schedule_lesson self req = Inr (self1, ok) \<Longrightarrow> I self1"
  shows "I self \<Longrightarrow> schedule_all self reqs sc fc = Inr (self2, sc2, fc2) \<Longrightarrow> I self2"
    and "I self \<Longrightarrow> schedule_all self reqs sc fc = Inl (e, self3) \<Longrightarrow> I self3"
proof -
  have both: "I self \<Longrightarrow>
      (\<forall>self2 sc2 fc2. schedule_all self reqs sc fc = Inr (self2, sc2, fc2) \<longrightarrow> I self2) \<and>
      (\<forall>e self3. schedule_all self reqs sc fc = Inl (e, self3) \<longrightarrow> I self3)"
  proof (induction reqs arbitrary: self sc fc)
    case Nil
    then show ?case by simp
  next
    case (Cons r rs)
    show ?case
    proof (cases "schedule_lesson self r")
      case (Inl e)
      with Cons.prems show ?thesis by simp
    next
      case (Inr p)
      obtain self1 ok where p: "p = (self1, ok)" by (cases p) auto
      from step[OF Cons.prems] Inr p have i1: "I self1" by simp
      show ?thesis
      proof (cases ok)
        case True
        with Inr p Cons.IH[OF i1, of "sc + 1" fc] show ?thesis by simp
      next
        case False
        from i1 have "I (analyze_scheduling_failure self1 r)"
          by (simp add: analyze_scheduling_failure_def log_all_keeps[of I, OF lg])
        from Cons.IH[OF this, of sc "fc + 1"] False Inr p show ?thesis by simp
      qed
    qed
  qed
  show "I self \<Longrightarrow> schedule_all self reqs sc fc = Inr (self2, sc2, fc2) \<Longrightarrow> I self2"
    using both by blast
  show "I self \<Longrightarrow> schedule_all self reqs sc fc = Inl (e, self3) \<Longrightarrow> I self3"
    using both by blast
qed

lemma invariant_parts:
  assumes lg: "\<And>self m. I (log self m) = I self"
    and step: "\<And>self req self1 ok. I self \<Longrightarrow> schedule_lesson self req = Inr (self1, ok) \<Longrightarrow> I self1"
  shows "(I self \<and> schedule_lesson self req = Inr (self1, ok) \<longrightarrow> I self1)
       \<and> (I self \<and> schedule_all self reqs sc fc = Inr (self2, sc2, fc2) \<longrightarrow> I self2)
       \<and> (I self \<and> schedule_all self reqs sc fc = Inl (e, self3) \<longrightarrow> I self3)"
proof (intro conjI impI)
  assume "I self \<and> schedule_lesson self req = Inr (self1, ok)"
  then show "I self1" using step by blast
next
  assume a: "I self \<and> schedule_all self reqs sc fc = Inr (self2, sc2, fc2)"
  show "I self2"
  proof (rule schedule_all_keeps(1)[where I = I])
    show "\<And>self m. I (log self m) = I self" by (rule lg)
    show "\<And>self req self1 ok. I self \<Longrightarrow> schedule_lesson self req = Inr (self1, ok) \<Longrightarrow> I self1"
      by (rule step)
    show "I self" using a by simp
    show "schedule_all self reqs sc fc = Inr (self2, sc2, fc2)" using a by simp
  qed
next
  assume a: "I self \<and> schedule_all self reqs sc fc = Inl (e, self3)"
  show "I self3"
  proof (rule schedule_all_keeps(2)[where I = I])
    show "\<And>self m. I (log self m) = I self" by (rule lg)
    show "\<And>self req self1 ok. I self \<Longrightarrow> schedule_lesson self req = Inr (self1, ok) \<Longrightarrow> I self1"
      by (rule step)
    show "I self" using a by simp
    show "schedule_all self reqs sc fc = Inl (e, self3)" using a by simp
  qed
qed

lemma schedule_requirements_keeps:
  assumes lg: "\<And>self m. I (log self m) = I self"
    and step: "\<And>self req self1 ok. I self \<Longrightarrow> schedule_lesson self req = Inr (self1, ok) \<Longrightarrow> I self1"
    and i: "I self"
  shows "schedule_requirements self = Inr (self2, sc2, fc2) \<Longrightarrow> I self2"
    and "schedule_requirements self = Inl (e, self3) \<Longrightarrow> I self3"
proof -
  let ?s2 = "log_classroom_info (log self (Progress LogValidationPassed))"
  have i2: "I ?s2"
    using i by (simp add: log_classroom_info_def log_all_keeps[of I, OF lg] lg)
  {
    assume a: "schedule_requirements self = Inr (self2, sc2, fc2)"
    then obtain rs where "generate_lesson_requirements ?s2 = Inr rs"
      and "schedule_all (log (log ?s2 (Progress (LogGenerated (length rs)))) (Progress LogPrioritized))
             (prioritize_requirements rs) 0 0 = Inr (self2, sc2, fc2)"
      by (auto simp: schedule_requirements_def Let_def split: sum.splits)
    from schedule_all_keeps(1)[of I, OF lg step _ this(2)] i2 lg
    show "I self2" by simp
  }
  {
    assume a: "schedule_requirements self = Inl (e, self3)"
    show "I self3"
    proof (cases "generate_lesson_requirements ?s2")
      case (Inl e')
      with a have "self3 = ?s2" by (simp add: schedule_requirements_def Let_def)
      with i2 show ?thesis by simp
    next
      case (Inr rs)
      with a have "schedule_all (log (log ?s2 (Progress (LogGenerated (length rs)))) (Progress LogPrioritized))
             (prioritize_requirements rs) 0 0 = Inl (e, self3)"
        by (simp add: schedule_requirements_def Let_def)
      from schedule_all_keeps(2)[of I, OF lg step _ this] i2 lg
      show ?thesis by simp
    qed
  }
qed

lemma generate_schedule_keeps:
  assumes lg: "\<And>self m. I (log self m) = I self"
    and step: "\<And>self req self1 ok. I self \<Longrightarrow> schedule_lesson self req = Inr (self1, ok) \<Longrightarrow> I self1"
    and i: "I (reset_state self0)"
  shows "I (snd (generate_schedule self0))"
proof (cases "validate_input_data (reset_state self0)")
  case (Invalid msg)
  with i show ?thesis by (simp add: generate_schedule_def Let_def)
next
  case Valid
  show ?thesis
  proof (cases "schedule_requirements (reset_state self0)")
    case (Inl p)
    obtain e self5 where p: "p = (e, self5)" by (cases p) auto
    from schedule_requirements_keeps(2)[of I, OF lg step i] Inl p have "I self5" by simp
    with Valid Inl p lg show ?thesis
      by (simp add: generate_schedule_def Let_def generation_failed_def)
  next
    case (Inr p)
    obtain self5 sc fc where p: "p = (self5, sc, fc)" by (cases p) auto
    from schedule_requirements_keeps(1)[of I, OF lg step i] Inr p have "I self5" by simp
    with Valid Inr p lg show ?thesis
      by (simp add: generate_schedule_def Let_def optimize_schedule_distribution_def
          log_all_keeps[of I, OF lg])
  qed
qed

lemma result_schedule_cases:
  "result_schedule (fst (generate_schedule self0)) = [] \<or>
   result_schedule (fst (generate_schedule self0)) = schedule (snd (generate_schedule self0))"
  by (auto simp: generate_schedule_def Let_def generation_failed_def split: validation.splits sum.splits)

lemma schedule_lesson_no_double_booking:
  assumes "no_double_booking (schedule self)" "schedule_lesson self req = Inr (self1, ok)"
  shows "no_double_booking (schedule self1)"
proof -
  from schedule_lesson_cases[OF assms(2)]
  consider "schedule self1 = schedule self"
    | slots b where "find_available_slots self req = Inr slots" "b \<in> set slots"
        "schedule self1 = schedule self @ [b]"
    by auto
  then show ?thesis
  proof cases
    case 1
    with assms show ?thesis by simp
  next
    case 2
    from slot_facts(2,4)[OF 2(1,2)]
    have av: "is_slot_available self (class_group_id b) (teacher_id b) (classroom_id b) (day b)
                (lesson_number b)" by simp
    have "\<forall>s \<in> set (schedule self). \<not> clash s b"
      using is_slot_available_no_clash[OF av] by (auto simp: clash_def)
    with assms(1) 2(3) show ?thesis by (simp add: no_double_booking_append)
  qed
qed

text \<open>
  Claim C1. No double-booking is an invariant of the run. It holds when the schedule has
  been reset; every call of \<^verbatim>\<open>_schedule_lesson\<close> that returns keeps it, whether it
  commits a slot or not; so does the loop over any list of requirements, at its normal end
  and when an exception leaves it; and it holds for the schedule of the generator after
  \<^verbatim>\<open>generate_schedule\<close> and for the schedule of the result.
\<close>

theorem no_double_booking_invariant:
  "no_double_booking (schedule (reset_state self0))
   \<and> (no_double_booking (schedule self) \<and> schedule_lesson self req = Inr (self1, ok)
        \<longrightarrow> no_double_booking (schedule self1))
   \<and> (no_double_booking (schedule self) \<and> schedule_all self reqs sc fc = Inr (self2, sc2, fc2)
        \<longrightarrow> no_double_booking (schedule self2))
   \<and> (no_double_booking (schedule self) \<and> schedule_all self reqs sc fc = Inl (e, self3)
        \<longrightarrow> no_double_booking (schedule self3))
   \<and> no_double_booking (schedule (snd (generate_schedule self0)))
   \<and> no_double_booking (result_schedule (fst (generate_schedule self0)))"
proof -
  let ?I = "\<lambda>self. no_double_booking (schedule self)"
  have lg: "\<And>self m. ?I (log self m) = ?I self" by simp
  have step: "\<And>self req self1 ok. ?I self \<Longrightarrow> schedule_lesson self req = Inr (self1, ok) \<Longrightarrow> ?I self1"
    by (rule schedule_lesson_no_double_booking)
  have i0: "?I (reset_state self0)" by (simp add: reset_state_def no_double_booking_def)
  have fin: "?I (snd (generate_schedule self0))"
    by (rule generate_schedule_keeps[of ?I, OF lg step i0])
  have res: "no_double_booking (result_schedule (fst (generate_schedule self0)))"
    using result_schedule_cases[of self0] fin by (auto simp: no_double_booking_def)
  note parts = invariant_parts[of ?I self req self1 ok reqs sc fc self2 sc2 fc2 e self3, OF lg step]
  show ?thesis
    by (rule conjI[OF i0 conjI[OF parts[THEN conjunct1] conjI[OF parts[THEN conjunct2, THEN conjunct1]
          conjI[OF parts[THEN conjunct2, THEN conjunct2] conjI[OF fin res]]]]])
qed


lemma schedule_lesson_inputs:
  assumes "schedule_lesson self req = Inr (self1, ok)"
  shows "institution self1 = institution self \<and> teachers self1 = teachers self \<and>
         classrooms self1 = classrooms self"
  using schedule_lesson_cases[OF assms] by auto

lemma owner_teaches_cong:
  assumes "teachers a = teachers b" "classrooms a = classrooms b"
  shows "owner_teaches a s = owner_teaches b s"
  unfolding owner_teaches_def find_classroom_def find_owner_def assms ..

lemma owner_teaches_log [simp]: "owner_teaches (log self m) s = owner_teaches self s"
  by (rule owner_teaches_cong) simp_all

lemma generate_schedule_inputs:
  "institution (snd (generate_schedule self0)) = institution self0 \<and>
   teachers (snd (generate_schedule self0)) = teachers self0 \<and>
   classrooms (snd (generate_schedule self0)) = classrooms self0"
proof -
  let ?I = "\<lambda>self. institution self = institution self0 \<and> teachers self = teachers self0 \<and>
                    classrooms self = classrooms self0"
  have lg: "\<And>self m. ?I (log self m) = ?I self" by simp
  have step: "\<And>self req self1 ok. ?I self \<Longrightarrow> schedule_lesson self req = Inr (self1, ok) \<Longrightarrow> ?I self1"
    using schedule_lesson_inputs by simp
  have i0: "?I (reset_state self0)" by (simp add: reset_state_def)
  show ?thesis by (rule generate_schedule_keeps[of ?I, OF lg step i0])
qed

lemma schedule_lesson_owner_teaches:
  assumes "\<forall>s \<in> set (schedule self). owner_teaches self s"
    and "schedule_lesson self req = Inr (self1, ok)"
  shows "\<forall>s \<in> set (schedule self1). owner_teaches self1 s"
proof -
  have same: "\<And>s. owner_teaches self1 s = owner_teaches self s"
    using schedule_lesson_inputs[OF assms(2)] by (intro owner_teaches_cong) simp_all
  from schedule_lesson_cases[OF assms(2)]
  consider "schedule self1 = schedule self"
    | slots b where "find_available_slots self req = Inr slots" "b \<in> set slots"
        "schedule self1 = schedule self @ [b]"
    by auto
  then show ?thesis
  proof cases
    case 1
    with assms(1) same show ?thesis by simp
  next
    case 2
    from slot_facts(4)[OF 2(1,2)]
    have "owner_teaches self b"
      by (auto simp: owner_teaches_def dest: is_slot_available_owner split: option.splits)
    with assms(1) same 2(3) show ?thesis by simp
  qed
qed

lemma find_owner_Some:
  "find_owner self cid = Some owner \<Longrightarrow> owner \<in> set (teachers self) \<and> home_classroom owner = Some cid"
  by (auto simp: find_owner_def find_Some_iff)

lemma find_owner_None:
  "find_owner self cid = None \<Longrightarrow> t \<in> set (teachers self) \<Longrightarrow> home_classroom t \<noteq> Some cid"
  by (auto simp: find_owner_def find_None_iff)

text \<open>
  Claim C2. Teacher-lab exclusivity is an invariant of the run: in the reset generator,
  after every call of \<^verbatim>\<open>_schedule_lesson\<close>, after the loop at its normal end and when
  an exception leaves it, and in the final and the returned schedule, every committed
  slot whose classroom has type \<^verbatim>\<open>teacher_lab\<close> and an owner is taught by the owner
  (the first teacher whose home classroom is that room, as the generator looks the owner
  up). For such a slot and any teacher whose home classroom is the room, the slot's
  teacher is one of the teachers whose home classroom is the room, and is that teacher
  when the room has no owner with another id.
\<close>

theorem teacher_lab_exclusivity:
  "(\<forall>s \<in> set (schedule (reset_state self0)). owner_teaches (reset_state self0) s)
   \<and> ((\<forall>s \<in> set (schedule self). owner_teaches self s) \<and>
       schedule_lesson self req = Inr (self1, ok)
        \<longrightarrow> (\<forall>s \<in> set (schedule self1). owner_teaches self1 s))
   \<and> ((\<forall>s \<in> set (schedule self). owner_teaches self s) \<and>
       schedule_all self reqs sc fc = Inr (self2, sc2, fc2)
        \<longrightarrow> (\<forall>s \<in> set (schedule self2). owner_teaches self2 s))
   \<and> ((\<forall>s \<in> set (schedule self). owner_teaches self s) \<and>
       schedule_all self reqs sc fc = Inl (e, self3)
        \<longrightarrow> (\<forall>s \<in> set (schedule self3). owner_teaches self3 s))
   \<and> (\<forall>s \<in> set (schedule (snd (generate_schedule self0))). owner_teaches self0 s)
   \<and> (\<forall>s \<in> set (result_schedule (fst (generate_schedule self0))). owner_teaches self0 s)
   \<and> (owner_teaches self s \<and> find_classroom self (classroom_id s) = Some c \<and>
      room_type c = ''teacher_lab'' \<and> t \<in> set (teachers self) \<and>
      home_classroom t = Some (room_id c)
        \<longrightarrow> (\<exists>owner \<in> set (teachers self).
               home_classroom owner = Some (room_id c) \<and> teacher_id s = tch_id owner) \<and>
            ((\<forall>u \<in> set (teachers self). home_classroom u = Some (room_id c) \<longrightarrow> tch_id u = tch_id t)
               \<longrightarrow> teacher_id s = tch_id t))"
proof -
  let ?I = "\<lambda>self. \<forall>s \<in> set (schedule self). owner_teaches self s"
  have lg: "\<And>self m. ?I (log self m) = ?I self" by simp
  have step: "\<And>self req self1 ok. ?I self \<Longrightarrow> schedule_lesson self req = Inr (self1, ok) \<Longrightarrow> ?I self1"
    by (rule schedule_lesson_owner_teaches)
  have i0: "?I (reset_state self0)" by (simp add: reset_state_def)
  have "?I (snd (generate_schedule self0))"
    by (rule generate_schedule_keeps[of ?I, OF lg step i0])
  then have fin: "\<forall>s \<in> set (schedule (snd (generate_schedule self0))). owner_teaches self0 s"
    using generate_schedule_inputs[of self0] owner_teaches_cong[of "snd (generate_schedule self0)" self0]
    by simp
  have res: "\<forall>s \<in> set (result_schedule (fst (generate_schedule self0))). owner_teaches self0 s"
    using result_schedule_cases[of self0] fin by auto
  have own: "owner_teaches self s \<and> find_classroom self (classroom_id s) = Some c \<and>
      room_type c = ''teacher_lab'' \<and> t \<in> set (teachers self) \<and>
      home_classroom t = Some (room_id c)
        \<longrightarrow> (\<exists>owner \<in> set (teachers self).
               home_classroom owner = Some (room_id c) \<and> teacher_id s = tch_id owner) \<and>
            ((\<forall>u \<in> set (teachers self). home_classroom u = Some (room_id c) \<longrightarrow> tch_id u = tch_id t)
               \<longrightarrow> teacher_id s = tch_id t)"
  proof (intro impI)
    assume a: "owner_teaches self s \<and> find_classroom self (classroom_id s) = Some c \<and>
      room_type c = ''teacher_lab'' \<and> t \<in> set (teachers self) \<and>
      home_classroom t = Some (room_id c)"
    then obtain owner where o: "find_owner self (room_id c) = Some owner"
      using find_owner_None[of self "room_id c" t] by (cases "find_owner self (room_id c)") auto
    with a have ts: "teacher_id s = tch_id owner" by (auto simp: owner_teaches_def)
    from find_owner_Some[OF o] ts
    show "(\<exists>owner \<in> set (teachers self).
               home_classroom owner = Some (room_id c) \<and> teacher_id s = tch_id owner) \<and>
            ((\<forall>u \<in> set (teachers self). home_classroom u = Some (room_id c) \<longrightarrow> tch_id u = tch_id t)
               \<longrightarrow> teacher_id s = tch_id t)"
      by auto
  qed
  note parts = invariant_parts[of ?I self req self1 ok reqs sc fc self2 sc2 fc2 e self3, OF lg step]
  show ?thesis
    by (rule conjI[OF i0 conjI[OF parts[THEN conjunct1] conjI[OF parts[THEN conjunct2, THEN conjunct1]
          conjI[OF parts[THEN conjunct2, THEN conjunct2] conjI[OF fin conjI[OF res own]]]]]])
qed

lemma schedule_lesson_slot_in_domain:
  assumes "\<forall>s \<in> set (schedule self). slot_in_domain (institution self) s"
    and "schedule_lesson self req = Inr (self1, ok)"
  shows "\<forall>s \<in> set (schedule self1). slot_in_domain (institution self1) s"
proof -
  from schedule_lesson_inputs[OF assms(2)] have same: "institution self1 = institution self" by simp
  from schedule_lesson_cases[OF assms(2)]
  consider "schedule self1 = schedule self"
    | slots b where "find_available_slots self req = Inr slots" "b \<in> set slots"
        "schedule self1 = schedule self @ [b]"
    by auto
  then show ?thesis
  proof cases
    case 1
    with assms(1) same show ?thesis by simp
  next
    case 2
    from slot_facts(1)[OF 2(1,2)] assms(1) same 2(3) show ?thesis by simp
  qed
qed

text \<open>
  Claim C10. The domain of the slots is an invariant of the run: in the reset generator,
  after every call of \<^verbatim>\<open>_schedule_lesson\<close>, after the loop at its normal end and when
  an exception leaves it, and in the final and the returned schedule, every committed
  slot has a day of the institution's working days and a lesson number from 1 to
  \<^verbatim>\<open>lessons_per_day\<close>.
\<close>

theorem slot_domain_invariant:
  "(\<forall>s \<in> set (schedule (reset_state self0)). slot_in_domain (institution (reset_state self0)) s)
   \<and> ((\<forall>s \<in> set (schedule self). slot_in_domain (institution self) s) \<and>
       schedule_lesson self req = Inr (self1, ok)
        \<longrightarrow> (\<forall>s \<in> set (schedule self1). slot_in_domain (institution self1) s))
   \<and> ((\<forall>s \<in> set (schedule self). slot_in_domain (institution self) s) \<and>
       schedule_all self reqs sc fc = Inr (self2, sc2, fc2)
        \<longrightarrow> (\<forall>s \<in> set (schedule self2). slot_in_domain (institution self2) s))
   \<and> ((\<forall>s \<in> set (schedule self). slot_in_domain (institution self) s) \<and>
       schedule_all self reqs sc fc = Inl (e, self3)
        \<longrightarrow> (\<forall>s \<in> set (schedule self3). slot_in_domain (institution self3) s))
   \<and> (\<forall>s \<in> set (schedule (snd (generate_schedule self0))).
        day s \<in> set (working_days (institution self0)) \<and> 1 \<le> lesson_number s \<and>
        lesson_number s \<le> lessons_per_day (institution self0))
   \<and> (\<forall>s \<in> set (result_schedule (fst (generate_schedule self0))).
        day s \<in> set (working_days (institution self0)) \<and> 1 \<le> lesson_number s \<and>
        lesson_number s \<le> lessons_per_day (institution self0))"
proof -
  let ?I = "\<lambda>self. \<forall>s \<in> set (schedule self). slot_in_domain (institution self) s"
  have lg: "\<And>self m. ?I (log self m) = ?I self" by simp
  have step: "\<And>self req self1 ok. ?I self \<Longrightarrow> schedule_lesson self req = Inr (self1, ok) \<Longrightarrow> ?I self1"
    by (rule schedule_lesson_slot_in_domain)
  have i0: "?I (reset_state self0)" by (simp add: reset_state_def)
  have "?I (snd (generate_schedule self0))"
    by (rule generate_schedule_keeps[of ?I, OF lg step i0])
  then have fin: "\<forall>s \<in> set (schedule (snd (generate_schedule self0))).
        day s \<in> set (working_days (institution self0)) \<and> 1 \<le> lesson_number s \<and>
        lesson_number s \<le> lessons_per_day (institution self0)"
    using generate_schedule_inputs[of self0] by (simp add: slot_in_domain_def)
  have res: "\<forall>s \<in> set (result_schedule (fst (generate_schedule self0))).
        day s \<in> set (working_days (institution self0)) \<and> 1 \<le> lesson_number s \<and>
        lesson_number s \<le> lessons_per_day (institution self0)"
    using result_schedule_cases[of self0] fin by auto
  note parts = invariant_parts[of ?I self req self1 ok reqs sc fc self2 sc2 fc2 e self3, OF lg step]
  show ?thesis
    by (rule conjI[OF i0 conjI[OF parts[THEN conjunct1] conjI[OF parts[THEN conjunct2, THEN conjunct1]
          conjI[OF parts[THEN conjunct2, THEN conjunct2] conjI[OF fin res]]]]])
qed

section \<open>The run of the small school\<close>

lemma small_first_step:
  "schedule_lesson small_school history_for_group_1 = Inr (after_first_lesson, True)"
  by code_simp

lemma small_loop:
  "map_sum id (\<lambda>(s, a, b). (schedule s, a, b))
     (schedule_all small_school [history_for_group_1, history_for_group_1, history_for_group_1] 0 0)
   = Inr ([first_history_slot, second_history_slot], 2, 1)"
  by code_simp

lemma broken_loop:
  "schedule_all broken_clock_school [history_for_group_1] 0 0 = Inl (ValueError, broken_clock_school)"
  by code_simp

lemma small_generate:
  "result_schedule (fst (generate_schedule small_school)) = [first_history_slot, second_history_slot]"
  "success (fst (generate_schedule small_school))"
  "error (fst (generate_schedule small_school)) = None"
  by code_simp+

lemma small_loop_state:
  "\<exists>self2. schedule_all small_school
             [history_for_group_1, history_for_group_1, history_for_group_1] 0 0 = Inr (self2, 2, 1)
           \<and> schedule self2 = [first_history_slot, second_history_slot]"
  using small_loop
  by (cases "schedule_all small_school
             [history_for_group_1, history_for_group_1, history_for_group_1] 0 0") auto

theorem no_double_booking_invariant_witness:
  "no_double_booking (schedule small_school) \<and>
   schedule_lesson small_school history_for_group_1 = Inr (after_first_lesson, True) \<and>
   no_double_booking (schedule after_first_lesson) \<and>
   (\<exists>self2. schedule_all small_school
              [history_for_group_1, history_for_group_1, history_for_group_1] 0 0 = Inr (self2, 2, 1) \<and>
            schedule self2 = [first_history_slot, second_history_slot] \<and>
            no_double_booking (schedule self2)) \<and>
   schedule_all broken_clock_school [history_for_group_1] 0 0 = Inl (ValueError, broken_clock_school) \<and>
   no_double_booking (schedule broken_clock_school) \<and>
   result_schedule (fst (generate_schedule small_school)) = [first_history_slot, second_history_slot] \<and>
   no_double_booking [first_history_slot, second_history_slot]"
proof -
  have n0: "no_double_booking (schedule small_school)"
    by (simp add: small_school_def no_double_booking_def)
  have nb: "no_double_booking (schedule broken_clock_school)"
    by (simp add: broken_clock_school_def small_school_def no_double_booking_def)
  from small_loop_state obtain self2 where
    l: "schedule_all small_school
          [history_for_group_1, history_for_group_1, history_for_group_1] 0 0 = Inr (self2, 2, 1)"
    and s2: "schedule self2 = [first_history_slot, second_history_slot]" by blast
  note t = no_double_booking_invariant[of small_school small_school history_for_group_1
      after_first_lesson True "[history_for_group_1, history_for_group_1, history_for_group_1]"
      0 0 self2 2 1]
  from t n0 small_first_step have a: "no_double_booking (schedule after_first_lesson)" by blast
  from t n0 l have b: "no_double_booking (schedule self2)" by blast
  from t small_generate(1) have c: "no_double_booking [first_history_slot, second_history_slot]"
    by simp
  from n0 nb small_first_step a l s2 b broken_loop small_generate(1) c show ?thesis by blast
qed


lemma small_facts:
  "schedule small_school = []" "schedule broken_clock_school = []"
  "schedule after_first_lesson = [first_history_slot]"
  "institution after_first_lesson = small_institution"
  "institution small_school = small_institution"
  by (simp_all add: small_school_def broken_clock_school_def after_first_lesson_def)

theorem teacher_lab_exclusivity_witness:
  "schedule small_school = [] \<and>
   schedule_lesson small_school history_for_group_1 = Inr (after_first_lesson, True) \<and>
   schedule after_first_lesson = [first_history_slot] \<and>
   owner_teaches after_first_lesson first_history_slot \<and>
   (\<exists>self2. schedule_all small_school
              [history_for_group_1, history_for_group_1, history_for_group_1] 0 0 = Inr (self2, 2, 1) \<and>
            schedule self2 = [first_history_slot, second_history_slot] \<and>
            owner_teaches self2 first_history_slot \<and> owner_teaches self2 second_history_slot) \<and>
   schedule_all broken_clock_school [history_for_group_1] 0 0 = Inl (ValueError, broken_clock_school) \<and>
   result_schedule (fst (generate_schedule small_school)) = [first_history_slot, second_history_slot] \<and>
   owner_teaches small_school first_history_slot \<and> owner_teaches small_school second_history_slot \<and>
   find_classroom small_school (classroom_id first_history_slot) = Some (hd (classrooms small_school)) \<and>
   room_type (hd (classrooms small_school)) = ''teacher_lab'' \<and>
   hd (teachers small_school) \<in> set (teachers small_school) \<and>
   home_classroom (hd (teachers small_school)) = Some (room_id (hd (classrooms small_school))) \<and>
   teacher_id first_history_slot = tch_id (hd (teachers small_school))"
proof -
  from small_loop_state obtain self2 where
    l: "schedule_all small_school
          [history_for_group_1, history_for_group_1, history_for_group_1] 0 0 = Inr (self2, 2, 1)"
    and s2: "schedule self2 = [first_history_slot, second_history_slot]" by blast
  have room: "find_classroom small_school (classroom_id first_history_slot) = Some (hd (classrooms small_school))"
    "room_type (hd (classrooms small_school)) = ''teacher_lab''"
    "hd (teachers small_school) \<in> set (teachers small_school)"
    "home_classroom (hd (teachers small_school)) = Some (room_id (hd (classrooms small_school)))"
    "\<forall>u \<in> set (teachers small_school).
       home_classroom u = Some (room_id (hd (classrooms small_school))) \<longrightarrow>
       tch_id u = tch_id (hd (teachers small_school))"
    by code_simp+
  note t = teacher_lab_exclusivity[of small_school small_school history_for_group_1
      after_first_lesson True "[history_for_group_1, history_for_group_1, history_for_group_1]"
      0 0 self2 2 1 _ _ first_history_slot "hd (classrooms small_school)" "hd (teachers small_school)"]
  note step = t[THEN conjunct2, THEN conjunct1]
  note loop = t[THEN conjunct2, THEN conjunct2, THEN conjunct1]
  note res = t[THEN conjunct2, THEN conjunct2, THEN conjunct2, THEN conjunct2, THEN conjunct2,
      THEN conjunct1]
  note own = t[THEN conjunct2, THEN conjunct2, THEN conjunct2, THEN conjunct2, THEN conjunct2,
      THEN conjunct2]
  from step small_first_step small_facts(1)
  have "\<forall>s \<in> set (schedule after_first_lesson). owner_teaches after_first_lesson s" by simp
  then have a: "owner_teaches after_first_lesson first_history_slot" by (simp add: small_facts)
  from loop l small_facts(1) have "\<forall>s \<in> set (schedule self2). owner_teaches self2 s" by simp
  then have b: "owner_teaches self2 first_history_slot" "owner_teaches self2 second_history_slot"
    by (simp_all add: s2)
  from res small_generate(1)
  have c: "owner_teaches small_school first_history_slot" "owner_teaches small_school second_history_slot"
    by simp_all
  from own c(1) room have d: "teacher_id first_history_slot = tch_id (hd (teachers small_school))"
    by blast
  from small_facts(1,3) small_first_step a l s2 b broken_loop small_generate(1) c room(1-4) d
  show ?thesis by blast
qed

theorem slot_domain_invariant_witness:
  "schedule small_school = [] \<and>
   schedule_lesson small_school history_for_group_1 = Inr (after_first_lesson, True) \<and>
   schedule after_first_lesson = [first_history_slot] \<and>
   slot_in_domain (institution after_first_lesson) first_history_slot \<and>
   (\<exists>self2. schedule_all small_school
              [history_for_group_1, history_for_group_1, history_for_group_1] 0 0 = Inr (self2, 2, 1) \<and>
            schedule self2 = [first_history_slot, second_history_slot] \<and>
            slot_in_domain (institution self2) first_history_slot \<and>
            slot_in_domain (institution self2) second_history_slot) \<and>
   schedule_all broken_clock_school [history_for_group_1] 0 0 = Inl (ValueError, broken_clock_school) \<and>
   result_schedule (fst (generate_schedule small_school)) = [first_history_slot, second_history_slot] \<and>
   working_days (institution small_school) = [''Mon'', ''Tue''] \<and>
   lessons_per_day (institution small_school) = 2 \<and>
   day second_history_slot \<in> set (working_days (institution small_school)) \<and>
   1 \<le> lesson_number second_history_slot \<and>
   lesson_number second_history_slot \<le> lessons_per_day (institution small_school)"
proof -
  from small_loop_state obtain self2 where
    l: "schedule_all small_school
          [history_for_group_1, history_for_group_1, history_for_group_1] 0 0 = Inr (self2, 2, 1)"
    and s2: "schedule self2 = [first_history_slot, second_history_slot]" by blast
  note t = slot_domain_invariant[of small_school small_school history_for_group_1
      after_first_lesson True "[history_for_group_1, history_for_group_1, history_for_group_1]"
      0 0 self2 2 1]
  from t small_first_step small_facts(1)
  have "\<forall>s \<in> set (schedule after_first_lesson). slot_in_domain (institution after_first_lesson) s"
    by simp
  then have a: "slot_in_domain (institution after_first_lesson) first_history_slot"
    by (simp add: small_facts)
  from t l small_facts(1) have "\<forall>s \<in> set (schedule self2). slot_in_domain (institution self2) s"
    by simp
  then have b: "slot_in_domain (institution self2) first_history_slot"
    "slot_in_domain (institution self2) second_history_slot"
    by (simp_all add: s2)
  from t small_generate(1)
  have c: "day second_history_slot \<in> set (working_days (institution small_school)) \<and>
     1 \<le> lesson_number second_history_slot \<and>
     lesson_number second_history_slot \<le> lessons_per_day (institution small_school)"
    by simp
  have i: "working_days (institution small_school) = [''Mon'', ''Tue'']"
    "lessons_per_day (institution small_school) = 2"
    by (simp_all add: small_school_def small_institution_def)
  from small_facts(1,3) small_first_step a l s2 b broken_loop small_generate(1) c i
  show ?thesis by blast
qed

section \<open>Scoring and selection: proofs\<close>

lemma find_distinct_key:
  "distinct (map f xs) \<Longrightarrow> x \<in> set xs \<Longrightarrow> find (\<lambda>y. f y = f x) xs = Some x"
proof (induction xs)
  case Nil
  then show ?case by simp
next
  case (Cons a xs)
  show ?case
  proof (cases "x = a")
    case True
    then show ?thesis by simp
  next
    case False
    with Cons.prems have xin: "x \<in> set xs" by simp
    then have "f x \<in> set (map f xs)" by simp
    moreover from Cons.prems(1) have "f a \<notin> set (map f xs)" by simp
    ultimately have "f a \<noteq> f x" by metis
    with Cons.IH Cons.prems(1) xin show ?thesis by simp
  qed
qed

lemma find_classroom_distinct:
  "distinct (map room_id (classrooms self)) \<Longrightarrow> c \<in> set (classrooms self) \<Longrightarrow>
   find_classroom self (room_id c) = Some c"
  using find_distinct_key[of room_id "classrooms self" c] by (simp add: find_classroom_def)

lemma find_Some_member: "find P xs = Some x \<Longrightarrow> x \<in> set xs \<and> P x"
  by (induction xs) (auto split: if_splits)

lemma own_teacher_lab_member:
  assumes "c \<in> set (own_teacher_lab self tid)"
  shows "room_type c = ''teacher_lab'' \<and> c \<in> set (classrooms self)"
proof (cases "find_teacher self tid")
  case None
  with assms show ?thesis by (simp add: own_teacher_lab_def)
next
  case (Some t)
  show ?thesis
  proof (cases "find (\<lambda>c. Some (room_id c) = home_classroom t) (classrooms self)")
    case None
    with assms Some show ?thesis
      by (cases "truthy (home_classroom t)") (simp_all add: own_teacher_lab_def)
  next
    case lab: (Some teacher_lab)
    with assms Some have "c = teacher_lab \<and> room_type teacher_lab = ''teacher_lab''"
      by (cases "truthy (home_classroom t)"; cases "room_type teacher_lab = ''teacher_lab''")
        (simp_all add: own_teacher_lab_def)
    with find_Some_member[OF lab] show ?thesis by simp
  qed
qed

lemma suitable_in_classrooms:
  "c \<in> set (get_suitable_classrooms_for_teacher self stype sid tid) \<Longrightarrow> c \<in> set (classrooms self)"
  by (auto simp: get_suitable_classrooms_for_teacher_def get_specialized_classrooms_for_subject_def
      Let_def dest: own_teacher_lab_member split: if_splits)

lemma suitable_specialized:
  assumes "c \<in> set (get_suitable_classrooms_for_teacher self stype sid tid)"
  shows "specialized_for sid c \<longleftrightarrow>
         (stype = ''lab'' \<and> (\<exists>k \<in> set (classrooms self). specialized_for sid k))"
proof (cases "stype = ''lab''")
  case True
  show ?thesis
  proof (cases "\<exists>k \<in> set (classrooms self). specialized_for sid k")
    case ex: True
    then have "filter (specialized_for sid) (classrooms self) \<noteq> []"
      by (simp add: filter_empty_conv)
    with assms True have "specialized_for sid c"
      by (simp add: get_suitable_classrooms_for_teacher_def get_specialized_classrooms_for_subject_def)
    with True ex show ?thesis by simp
  next
    case False
    with suitable_in_classrooms[OF assms] have "\<not> specialized_for sid c" by blast
    with False show ?thesis by simp
  qed
next
  case False
  with assms have "room_type c = ''teacher_lab'' \<or> room_type c = ''theory''"
    by (auto simp: get_suitable_classrooms_for_teacher_def dest: own_teacher_lab_member)
  then have "\<not> specialized_for sid c" by (auto simp: specialized_for_def)
  with False show ?thesis by simp
qed

lemma candidate_room_bonus:
  assumes d: "distinct (map room_id (classrooms self))"
    and f: "find_available_slots self req = Inr slots" and b: "b \<in> set slots"
  shows "(case find_classroom self (classroom_id b) of
            None \<Rightarrow> False | Some c \<Rightarrow> specialized_for (subject_id req) c)
         = (subject_type req = ''lab'' \<and>
            (\<exists>k \<in> set (classrooms self). specialized_for (subject_id req) k))"
proof -
  from slot_facts(5)[OF f b] obtain c where
    c: "c \<in> set (get_suitable_classrooms_for_teacher self (subject_type req) (subject_id req)
                   (teacher_id b))" "classroom_id b = room_id c" by blast
  from find_classroom_distinct[OF d suitable_in_classrooms[OF c(1)]] c(2)
  have "find_classroom self (classroom_id b) = Some c" by simp
  with suitable_specialized[OF c(1)] show ?thesis by simp
qed

lemma score_slot_home_bonus:
  assumes "day s1 = day s2" "lesson_number s1 = lesson_number s2"
    "class_group_id s1 = class_group_id s2" "slot_subject_id s1 = slot_subject_id s2"
    "teacher_id s1 = teacher_id s2"
    "find_teacher self (teacher_id s1) = Some t"
    "home_classroom t = Some (classroom_id s1)" "classroom_id s2 \<noteq> classroom_id s1"
    "(case find_classroom self (classroom_id s1) of
        None \<Rightarrow> False | Some c \<Rightarrow> specialized_for (subject_id req) c) =
     (case find_classroom self (classroom_id s2) of
        None \<Rightarrow> False | Some c \<Rightarrow> specialized_for (subject_id req) c)"
  shows "score_slot self s1 req = score_slot self s2 req + 100"
  using assms by (auto simp: score_slot_def Let_def split: option.splits)

lemma select_best_slot_max:
  assumes "select_best_slot self slots req = Some b" "s \<in> set slots"
  shows "score_slot self s req \<le> score_slot self b req"
proof -
  let ?xs = "map (\<lambda>slot. (slot, score_slot self slot req)) slots"
  let ?ys = "sort_key (\<lambda>x. - snd x) ?xs"
  from assms have b: "b = fst (hd ?ys)"
    by (auto simp: select_best_slot_def Let_def split: if_splits)
  from assms(2) have ne: "?ys \<noteq> []" by (metis empty_iff length_0_conv length_map length_sort list.set(1))
  then obtain y ys where ys: "?ys = y # ys" by (cases ?ys) auto
  have srt: "sorted (map (\<lambda>x. - snd x) ?ys)" by (rule sorted_sort_key)
  have "y \<in> set ?ys" using ys by simp
  then have "y \<in> set ?xs" by simp
  then have y2: "snd y = score_slot self (fst y) req" by auto
  from assms(2) have "(s, score_slot self s req) \<in> set ?xs" by auto
  then have "(s, score_slot self s req) \<in> set ?ys" by simp
  with srt ys have "- snd y \<le> - snd (s, score_slot self s req)" by auto
  with y2 b ys show ?thesis by simp
qed

lemma select_best_slot_pair:
  assumes "score_slot self s2 req < score_slot self s1 req"
  shows "select_best_slot self [s1, s2] req = Some s1" "select_best_slot self [s2, s1] req = Some s1"
  using assms by (simp_all add: select_best_slot_def Let_def)

text \<open>
  Claim C7. Let the classroom ids be distinct, and let two of the candidate slots
  \<^verbatim>\<open>_find_available_slots\<close> returns for a requirement have the same day, lesson number
  and teacher (their group and subject are the requirement's), the first in the teacher's
  home classroom and the second in another classroom. Then the score of the first is the
  score of the second plus 100; the slot \<^verbatim>\<open>_select_best_slot\<close> picks among all candidates
  scores at least as much as the first and is not the second; and from the two slots
  alone, in either order, it picks the first.
\<close>

theorem home_classroom_dominance:
  "distinct (map room_id (classrooms self)) \<and> find_available_slots self req = Inr slots \<and>
   s1 \<in> set slots \<and> s2 \<in> set slots \<and>
   day s1 = day s2 \<and> lesson_number s1 = lesson_number s2 \<and> teacher_id s1 = teacher_id s2 \<and>
   find_teacher self (teacher_id s1) = Some t \<and>
   home_classroom t = Some (classroom_id s1) \<and> classroom_id s2 \<noteq> classroom_id s1
   \<longrightarrow> class_group_id s1 = class_group_id s2 \<and> slot_subject_id s1 = slot_subject_id s2 \<and>
       score_slot self s1 req = score_slot self s2 req + 100 \<and>
       (\<exists>b. select_best_slot self slots req = Some b \<and> b \<in> set slots \<and>
            score_slot self s1 req \<le> score_slot self b req \<and> b \<noteq> s2) \<and>
       select_best_slot self [s1, s2] req = Some s1 \<and>
       select_best_slot self [s2, s1] req = Some s1"
proof (intro impI)
  assume a: "distinct (map room_id (classrooms self)) \<and> find_available_slots self req = Inr slots \<and>
   s1 \<in> set slots \<and> s2 \<in> set slots \<and>
   day s1 = day s2 \<and> lesson_number s1 = lesson_number s2 \<and> teacher_id s1 = teacher_id s2 \<and>
   find_teacher self (teacher_id s1) = Some t \<and>
   home_classroom t = Some (classroom_id s1) \<and> classroom_id s2 \<noteq> classroom_id s1"
  then have d: "distinct (map room_id (classrooms self))"
    and f: "find_available_slots self req = Inr slots"
    and m1: "s1 \<in> set slots" and m2: "s2 \<in> set slots" by simp_all
  from slot_facts(2,3)[OF f m1] slot_facts(2,3)[OF f m2]
  have g: "class_group_id s1 = class_group_id s2" "slot_subject_id s1 = slot_subject_id s2"
    by simp_all
  from candidate_room_bonus[OF d f m1] candidate_room_bonus[OF d f m2]
  have k: "(case find_classroom self (classroom_id s1) of
        None \<Rightarrow> False | Some c \<Rightarrow> specialized_for (subject_id req) c) =
     (case find_classroom self (classroom_id s2) of
        None \<Rightarrow> False | Some c \<Rightarrow> specialized_for (subject_id req) c)" by simp
  from a have e: "day s1 = day s2" "lesson_number s1 = lesson_number s2"
    "teacher_id s1 = teacher_id s2" "find_teacher self (teacher_id s1) = Some t"
    "home_classroom t = Some (classroom_id s1)" "classroom_id s2 \<noteq> classroom_id s1"
    by auto
  have sc: "score_slot self s1 req = score_slot self s2 req + 100"
    by (rule score_slot_home_bonus[OF e(1,2) g e(3-6) k])
  from m1 have "slots \<noteq> []" by auto
  then obtain b where b: "select_best_slot self slots req = Some b"
    by (auto simp: select_best_slot_def Let_def)
  from select_best_slot_max[OF b m1] have le: "score_slot self s1 req \<le> score_slot self b req" .
  with sc have "b \<noteq> s2" by auto
  with b le select_best_slot_in[OF b]
  have ex: "\<exists>b. select_best_slot self slots req = Some b \<and> b \<in> set slots \<and>
            score_slot self s1 req \<le> score_slot self b req \<and> b \<noteq> s2" by blast
  from sc have lt: "score_slot self s2 req < score_slot self s1 req" by simp
  from g sc ex select_best_slot_pair[OF lt]
  show "class_group_id s1 = class_group_id s2 \<and> slot_subject_id s1 = slot_subject_id s2 \<and>
       score_slot self s1 req = score_slot self s2 req + 100 \<and>
       (\<exists>b. select_best_slot self slots req = Some b \<and> b \<in> set slots \<and>
            score_slot self s1 req \<le> score_slot self b req \<and> b \<noteq> s2) \<and>
       select_best_slot self [s1, s2] req = Some s1 \<and>
       select_best_slot self [s2, s1] req = Some s1" by blast
qed

lemma small_candidates:
  "find_available_slots small_school history_for_group_1 =
     Inr [first_history_slot, theory_room_slot, second_history_slot,
          second_history_slot\<lparr>classroom_id := ''R2''\<rparr>]"
  by code_simp

lemma small_scores:
  "score_slot small_school first_history_slot history_for_group_1 = 110"
  "score_slot small_school theory_room_slot history_for_group_1 = 10"
  by code_simp+

lemma small_selection:
  "select_best_slot small_school
     [first_history_slot, theory_room_slot, second_history_slot,
      second_history_slot\<lparr>classroom_id := ''R2''\<rparr>] history_for_group_1 = Some first_history_slot"
  by code_simp

theorem home_classroom_dominance_witness:
  "distinct (map room_id (classrooms small_school)) \<and>
   find_available_slots small_school history_for_group_1 =
     Inr [first_history_slot, theory_room_slot, second_history_slot,
          second_history_slot\<lparr>classroom_id := ''R2''\<rparr>] \<and>
   day first_history_slot = day theory_room_slot \<and>
   lesson_number first_history_slot = lesson_number theory_room_slot \<and>
   teacher_id first_history_slot = teacher_id theory_room_slot \<and>
   find_teacher small_school (teacher_id first_history_slot) = Some (hd (teachers small_school)) \<and>
   home_classroom (hd (teachers small_school)) = Some (classroom_id first_history_slot) \<and>
   classroom_id theory_room_slot \<noteq> classroom_id first_history_slot \<and>
   score_slot small_school first_history_slot history_for_group_1 = 110 \<and>
   score_slot small_school theory_room_slot history_for_group_1 = 10 \<and>
   score_slot small_school first_history_slot history_for_group_1 =
     score_slot small_school theory_room_slot history_for_group_1 + 100 \<and>
   select_best_slot small_school
     [first_history_slot, theory_room_slot, second_history_slot,
      second_history_slot\<lparr>classroom_id := ''R2''\<rparr>] history_for_group_1 = Some first_history_slot \<and>
   select_best_slot small_school [first_history_slot, theory_room_slot] history_for_group_1
     = Some first_history_slot \<and>
   select_best_slot small_school [theory_room_slot, first_history_slot] history_for_group_1
     = Some first_history_slot"
proof -
  have h: "distinct (map room_id (classrooms small_school))"
    "day first_history_slot = day theory_room_slot"
    "lesson_number first_history_slot = lesson_number theory_room_slot"
    "teacher_id first_history_slot = teacher_id theory_room_slot"
    "find_teacher small_school (teacher_id first_history_slot) = Some (hd (teachers small_school))"
    "home_classroom (hd (teachers small_school)) = Some (classroom_id first_history_slot)"
    "classroom_id theory_room_slot \<noteq> classroom_id first_history_slot"
    by code_simp+
  have m: "first_history_slot \<in> set [first_history_slot, theory_room_slot, second_history_slot,
          second_history_slot\<lparr>classroom_id := ''R2''\<rparr>]"
    "theory_room_slot \<in> set [first_history_slot, theory_room_slot, second_history_slot,
          second_history_slot\<lparr>classroom_id := ''R2''\<rparr>]"
    by simp_all
  from home_classroom_dominance[of small_school history_for_group_1
      "[first_history_slot, theory_room_slot, second_history_slot,
        second_history_slot\<lparr>classroom_id := ''R2''\<rparr>]"
      first_history_slot theory_room_slot "hd (teachers small_school)"] h m small_candidates
  have c: "score_slot small_school first_history_slot history_for_group_1 =
       score_slot small_school theory_room_slot history_for_group_1 + 100"
    "select_best_slot small_school [first_history_slot, theory_room_slot] history_for_group_1
       = Some first_history_slot"
    "select_best_slot small_school [theory_room_slot, first_history_slot] history_for_group_1
       = Some first_history_slot"
    by blast+
  from h small_candidates small_scores small_selection c show ?thesis by blast
qed

section \<open>The result of the run\<close>







section \<open>The logs of the result\<close>

lemma validate_input_data_reset:
  "validate_input_data (reset_state self0) = validate_input_data self0"
  by (simp add: validate_input_data_def reset_state_def log_def)

lemma run_logs_not_empty:
  assumes "validate_input_data (reset_state self0) = Valid"
  shows "result_logs (fst (generate_schedule self0)) \<noteq> []"
proof (cases "schedule_requirements (reset_state self0)")
  case (Inl p)
  obtain e self5 where "p = (e, self5)" by (cases p) auto
  with assms Inl show ?thesis
    by (simp add: generate_schedule_def Let_def generation_failed_def)
next
  case (Inr p)
  obtain self5 sc fc where "p = (self5, sc, fc)" by (cases p) auto
  with assms Inr show ?thesis
    by (simp add: generate_schedule_def Let_def optimize_schedule_distribution_def)
qed

text \<open>
  Claim C8. The logs of the result are empty exactly when validation fails:
  \<^verbatim>\<open>generate_schedule\<close> writes its start message and then sets \<^verbatim>\<open>self.logs\<close> to the
  empty list, and a validation failure returns before anything else is written; the
  result is then a failure with the empty schedule and the validation message. When
  validation passes, the logs of the result are not empty.
\<close>

theorem logs_and_validation:
  "(validate_input_data self0 = Invalid message \<longrightarrow>
      result_logs (fst (generate_schedule self0)) = [] \<and>
      \<not> success (fst (generate_schedule self0)) \<and>
      result_schedule (fst (generate_schedule self0)) = [] \<and>
      error (fst (generate_schedule self0)) = Some (ErrorMessage message))
   \<and> (validate_input_data self0 = Valid \<longrightarrow> result_logs (fst (generate_schedule self0)) \<noteq> [])"
proof (intro conjI impI)
  assume "validate_input_data self0 = Invalid message"
  then have v: "validate_input_data (reset_state self0) = Invalid message"
    by (simp add: validate_input_data_reset)
  have l: "logs (reset_state self0) = []" by (simp add: reset_state_def)
  from v l show "result_logs (fst (generate_schedule self0)) = []"
    by (simp add: generate_schedule_def Let_def)
  from v show "\<not> success (fst (generate_schedule self0))"
    by (simp add: generate_schedule_def Let_def)
  from v show "result_schedule (fst (generate_schedule self0)) = []"
    by (simp add: generate_schedule_def Let_def)
  from v show "error (fst (generate_schedule self0)) = Some (ErrorMessage message)"
    by (simp add: generate_schedule_def Let_def)
next
  assume "validate_input_data self0 = Valid"
  then have "validate_input_data (reset_state self0) = Valid"
    by (simp add: validate_input_data_reset)
  then show "result_logs (fst (generate_schedule self0)) \<noteq> []"
    by (rule run_logs_not_empty)
qed

theorem logs_and_validation_witness:
  "validate_input_data no_groups_school = Invalid ''No class groups configured'' \<and>
   result_logs (fst (generate_schedule no_groups_school)) = [] \<and>
   \<not> success (fst (generate_schedule no_groups_school)) \<and>
   validate_input_data small_school = Valid \<and>
   result_logs (fst (generate_schedule small_school)) \<noteq> []"
proof -
  have v: "validate_input_data no_groups_school = Invalid ''No class groups configured''"
    "validate_input_data small_school = Valid"
    by code_simp+
  from logs_and_validation[of no_groups_school "''No class groups configured''"]
    logs_and_validation[of small_school] v
  show ?thesis by simp
qed

section \<open>Failure diagnostics: proofs\<close>

lemma analyze_time_slot_conflicts_messages:
  "m \<in> set (analyze_time_slot_conflicts self req ts cs) \<Longrightarrow> \<exists>c. m = Conflict c"
  by (auto simp: analyze_time_slot_conflicts_def split: prod.splits option.splits)

lemma no_classroom_messages_none_suitable:
  assumes "get_suitable_classrooms_for_subject_type self (subject_type req) (subject_id req) = []"
  shows "no_classroom_messages self req =
           (if subject_type req = ''lab'' then [LogNoLabs] else [LogNoTheoryRooms])"
proof (cases "subject_type req = ''lab''")
  case True
  show ?thesis
  proof (cases "get_specialized_classrooms_for_subject self (subject_id req) = []")
    case e: True
    with assms True show ?thesis
      by (simp add: get_suitable_classrooms_for_subject_type_def no_classroom_messages_def)
  next
    case False
    with assms True show ?thesis
      by (simp add: get_suitable_classrooms_for_subject_type_def)
  qed
next
  case False
  with assms show ?thesis
    by (simp add: get_suitable_classrooms_for_subject_type_def no_classroom_messages_def)
qed

lemma failure_diagnostics_messages:
  assumes "m \<in> set (failure_diagnostics self req)"
  shows "(\<exists>c. m = Conflict c) \<or>
         m \<in> Failure ` {LogFailed (subject_name req) (group_name req),
                        LogNoTeachersAssigned (subject_name req), LogNoTeachersExist,
                        LogNoTeacherAvailability, LogNoLabs, LogNoTheoryRooms} \<or>
         (\<exists>tid. m = Failure (LogTeacherNotFound tid)) \<or>
         (\<exists>f l. m = Failure (LogTeacherNoHours f l))"
proof (cases "get_suitable_classrooms_for_subject_type self (subject_type req) (subject_id req) = []")
  case True
  from assms show ?thesis
    unfolding failure_diagnostics_def Let_def no_classroom_messages_none_suitable[OF True]
    by (auto split: if_splits dest: analyze_time_slot_conflicts_messages)
next
  case False
  from assms False show ?thesis
    unfolding failure_diagnostics_def Let_def
    by (auto split: if_splits dest: analyze_time_slot_conflicts_messages)
qed

text \<open>
  Claim C9. \<^verbatim>\<open>_analyze_scheduling_failure\<close> never writes the messages for specialized
  laboratories that are all unavailable, for the occupied slots of such a laboratory, for
  general laboratories that are all unavailable or for theory classrooms that are all
  unavailable, whatever the generator and the requirement are: the classroom check is
  entered only when no classroom is suitable, and then the only messages are that no
  laboratory exists, for a laboratory subject, and that no theory classroom exists, for
  any other subject.
\<close>

theorem fully_booked_messages_never_written:
  "Failure (LogSpecializedLabsUnavailable k) \<notin> set (failure_diagnostics self req) \<and>
   Failure (LogLabOccupied nr k) \<notin> set (failure_diagnostics self req) \<and>
   Failure (LogGeneralLabsUnavailable k) \<notin> set (failure_diagnostics self req) \<and>
   Failure (LogTheoryRoomsUnavailable k) \<notin> set (failure_diagnostics self req) \<and>
   (get_suitable_classrooms_for_subject_type self (subject_type req) (subject_id req) = [] \<longrightarrow>
      no_classroom_messages self req =
        (if subject_type req = ''lab'' then [LogNoLabs] else [LogNoTheoryRooms]))"
proof -
  have "\<And>m. m \<in> set (failure_diagnostics self req) \<Longrightarrow>
      m \<noteq> Failure (LogSpecializedLabsUnavailable k) \<and> m \<noteq> Failure (LogLabOccupied nr k) \<and>
      m \<noteq> Failure (LogGeneralLabsUnavailable k) \<and> m \<noteq> Failure (LogTheoryRoomsUnavailable k)"
  proof -
    fix m assume "m \<in> set (failure_diagnostics self req)"
    from failure_diagnostics_messages[OF this]
    show "m \<noteq> Failure (LogSpecializedLabsUnavailable k) \<and> m \<noteq> Failure (LogLabOccupied nr k) \<and>
      m \<noteq> Failure (LogGeneralLabsUnavailable k) \<and> m \<noteq> Failure (LogTheoryRoomsUnavailable k)"
      by auto
  qed
  then show ?thesis using no_classroom_messages_none_suitable[of self req] by blast
qed

lemma lab_school_diagnostics:
  "find_available_slots lab_school_after_group_1 chemistry_for_group_2 = Inr []"
  "get_specialized_classrooms_for_subject lab_school_after_group_1 ''S1'' =
     [\<lparr>room_id = ''L1'', number = ''201'', room_type = ''lab'', specialization = Some ''S1''\<rparr>]"
  "busy_at lab_school_after_group_1 (\<lambda>s. classroom_id s = ''L1'') ''Mon'' 1"
  "failure_diagnostics lab_school_after_group_1 chemistry_for_group_2 =
     [Failure (LogFailed ''Chemistry'' ''Group 2''), Conflict (LogAnalyzing 2 1),
      Conflict LogConflictResults, Conflict (LogTotalChecked 1), Conflict (LogGroupConflicts 0),
      Conflict (LogTeacherConflicts 1), Conflict (LogTeacherUnavailable 0),
      Conflict (LogClassroomConflicts 1), Conflict LogRecComplex]"
  by code_simp+

theorem fully_booked_messages_never_written_witness:
  "find_available_slots lab_school_after_group_1 chemistry_for_group_2 = Inr [] \<and>
   get_specialized_classrooms_for_subject lab_school_after_group_1 ''S1'' =
     [\<lparr>room_id = ''L1'', number = ''201'', room_type = ''lab'', specialization = Some ''S1''\<rparr>] \<and>
   busy_at lab_school_after_group_1 (\<lambda>s. classroom_id s = ''L1'') ''Mon'' 1 \<and>
   failure_diagnostics lab_school_after_group_1 chemistry_for_group_2 =
     [Failure (LogFailed ''Chemistry'' ''Group 2''), Conflict (LogAnalyzing 2 1),
      Conflict LogConflictResults, Conflict (LogTotalChecked 1), Conflict (LogGroupConflicts 0),
      Conflict (LogTeacherConflicts 1), Conflict (LogTeacherUnavailable 0),
      Conflict (LogClassroomConflicts 1), Conflict LogRecComplex] \<and>
   Failure (LogSpecializedLabsUnavailable 1) \<notin>
     set (failure_diagnostics lab_school_after_group_1 chemistry_for_group_2)"
  using fully_booked_messages_never_written[of 1 lab_school_after_group_1 chemistry_for_group_2]
    lab_school_diagnostics
  by blast

end
